theory Spec2Isabelle
  imports Complex_Main "HOL-Library.Multiset"
begin

section \<open>JavaScript values\<close>

text \<open>
  A JavaScript string is a sequence of UTF-16 code units; \<open>length\<close>, \<open>substring\<close>,
  \<open>trim\<close> and the regular expression class \<open>\s\<close> all work on code units.
  ASCII literals of the source are written \<open>js ''...''\<close>.
\<close>

type_synonym code_unit = nat
type_synonym jsstring = "code_unit list"

definition js :: "string \<Rightarrow> jsstring" where
  "js s = map of_char s"

text \<open>
  Numbers: the finite values are modelled as reals (rounding of IEEE doubles is not
  modelled), together with \<open>NaN\<close>, which arithmetic on \<open>undefined\<close> produces.
\<close>

datatype jsnum = Num real | NaN

fun js_mul :: "jsnum \<Rightarrow> jsnum \<Rightarrow> jsnum" where
  "js_mul (Num a) (Num b) = Num (a * b)"
| "js_mul _ _ = NaN"

fun js_add :: "jsnum \<Rightarrow> jsnum \<Rightarrow> jsnum" where
  "js_add (Num a) (Num b) = Num (a + b)"
| "js_add _ _ = NaN"

text \<open>Division by the non-zero literal \<open>1_000_000\<close> is the only division of the cost code.\<close>

fun js_div_million :: "jsnum \<Rightarrow> jsnum" where
  "js_div_million (Num a) = Num (a / 1000000)"
| "js_div_million NaN = NaN"

text \<open>\<open>String(n)\<close> for a non-negative integer below \<open>10^21\<close>: its decimal digits.\<close>

fun decimal :: "nat \<Rightarrow> jsstring" where
  "decimal n = (if n < 10 then [48 + n] else decimal (n div 10) @ [48 + n mod 10])"

text \<open>
  The code units that ECMAScript counts as white space or line terminator; this is the
  set stripped by \<open>String.prototype.trim\<close> and matched by \<open>\s\<close>.
\<close>

definition isWhiteSpace :: "code_unit \<Rightarrow> bool" where
  "isWhiteSpace c \<longleftrightarrow>
     c \<in> set [9, 10, 11, 12, 13, 32, 160, 5760, 8232, 8233, 8239, 8287, 12288, 65279]
     \<or> (8192 \<le> c \<and> c \<le> 8202)"

definition trim :: "jsstring \<Rightarrow> jsstring" where
  "trim s = rev (dropWhile isWhiteSpace (rev (dropWhile isWhiteSpace s)))"

text \<open>
  \<open>s.substring(a, b)\<close> for non-negative integer arguments: both are clamped to the
  length, and they are swapped when the first is larger.
\<close>

definition substring :: "jsstring \<Rightarrow> nat \<Rightarrow> nat \<Rightarrow> jsstring" where
  "substring s a b =
     (let fa = min a (length s); fb = min b (length s);
          lo = min fa fb; hi = max fa fb
      in take (hi - lo) (drop lo s))"

text \<open>
  \<open>s.split(/\s+/)\<close>: the pieces between maximal runs of white space. A leading or trailing
  run yields an empty first or last piece, and the empty string yields one empty piece.
  The first argument is the piece collected so far.
\<close>

function split_ws :: "jsstring \<Rightarrow> jsstring \<Rightarrow> jsstring list" where
  "split_ws piece [] = [piece]"
| "split_ws piece (c # cs) =
     (if isWhiteSpace c then piece # split_ws [] (dropWhile isWhiteSpace cs)
      else split_ws (piece @ [c]) cs)"
  by pat_completeness auto
termination
  by (relation "measure (\<lambda>(piece, s). length s)")
     (auto simp: le_imp_less_Suc length_dropWhile_le)


section \<open>Cost ledger (config/openai-pricing.ts)\<close>

record ModelPricing =
  pricing_input :: real
  pricing_output :: real

definition MODEL_PRICING :: "(jsstring \<times> ModelPricing) list" where
  "MODEL_PRICING =
     [(js ''gpt-4o'', \<lparr>pricing_input = 250 / 100, pricing_output = 1000 / 100\<rparr>),
      (js ''gpt-4o-2024-11-20'', \<lparr>pricing_input = 250 / 100, pricing_output = 1000 / 100\<rparr>),
      (js ''gpt-4o-mini'', \<lparr>pricing_input = 150 / 1000, pricing_output = 600 / 1000\<rparr>),
      (js ''gpt-4o-mini-2024-07-18'', \<lparr>pricing_input = 150 / 1000, pricing_output = 600 / 1000\<rparr>),
      (js ''gpt-4-turbo'', \<lparr>pricing_input = 1000 / 100, pricing_output = 3000 / 100\<rparr>),
      (js ''gpt-4-turbo-2024-04-09'', \<lparr>pricing_input = 1000 / 100, pricing_output = 3000 / 100\<rparr>),
      (js ''gpt-3.5-turbo'', \<lparr>pricing_input = 50 / 100, pricing_output = 150 / 100\<rparr>),
      (js ''gpt-3.5-turbo-0125'', \<lparr>pricing_input = 50 / 100, pricing_output = 150 / 100\<rparr>)]"

text \<open>
  \<open>MODEL_PRICING\<close> is an object literal, so the property read \<open>MODEL_PRICING[model]\<close>
  looks at the object's own keys first and then at \<open>Object.prototype\<close>. A name found
  there yields a function (or, for \<open>__proto__\<close>, the prototype object): a truthy value
  that has neither an \<open>input\<close> nor an \<open>output\<close> property.
\<close>

definition Object_prototype_names :: "jsstring list" where
  "Object_prototype_names =
     [js ''constructor'', js ''__defineGetter__'', js ''__defineSetter__'',
      js ''hasOwnProperty'', js ''__lookupGetter__'', js ''__lookupSetter__'',
      js ''isPrototypeOf'', js ''propertyIsEnumerable'', js ''toString'', js ''valueOf'',
      js ''__proto__'', js ''toLocaleString'']"

datatype pricing_lookup = Undefined | Own ModelPricing | Inherited

definition MODEL_PRICING_get :: "jsstring \<Rightarrow> pricing_lookup" where
  "MODEL_PRICING_get model =
     (case map_of MODEL_PRICING model of
        Some pricing \<Rightarrow> Own pricing
      | None \<Rightarrow> if model \<in> set Object_prototype_names then Inherited else Undefined)"

text \<open>\<open>pricing.input\<close> and \<open>pricing.output\<close> as numbers; \<open>undefined\<close> converts to \<open>NaN\<close>.\<close>

fun input_of :: "pricing_lookup \<Rightarrow> jsnum" where
  "input_of (Own pricing) = Num (pricing_input pricing)"
| "input_of _ = NaN"

fun output_of :: "pricing_lookup \<Rightarrow> jsnum" where
  "output_of (Own pricing) = Num (pricing_output pricing)"
| "output_of _ = NaN"

text \<open>
  \<open>calculateCost\<close> calls itself on the fallback model. Whether that recursion ends is
  a property to prove, so the function is defined in the option domain, where not
  returning is \<open>None\<close>.
\<close>

partial_function (option) calculateCost :: "jsstring \<Rightarrow> jsnum \<Rightarrow> jsnum \<Rightarrow> jsnum option" where
  "calculateCost model promptTokens completionTokens =
     (case MODEL_PRICING_get model of
        Undefined \<Rightarrow> calculateCost (js ''gpt-4o-mini'') promptTokens completionTokens
      | pricing \<Rightarrow>
          (let inputCost = js_mul (js_div_million promptTokens) (input_of pricing);
               outputCost = js_mul (js_div_million completionTokens) (output_of pricing)
           in Some (js_add inputCost outputCost)))"

declare calculateCost.simps [code]

text \<open>
  The same body with a bound on the depth of the recursion: \<open>d\<close> is the number of
  recursive calls still allowed, and \<open>None\<close> means the bound was hit.
\<close>

fun calculateCost_depth :: "nat \<Rightarrow> jsstring \<Rightarrow> jsnum \<Rightarrow> jsnum \<Rightarrow> jsnum option" where
  "calculateCost_depth d model promptTokens completionTokens =
     (case MODEL_PRICING_get model of
        Undefined \<Rightarrow>
          (case d of
             0 \<Rightarrow> None
           | Suc d' \<Rightarrow> calculateCost_depth d' (js ''gpt-4o-mini'') promptTokens completionTokens)
      | pricing \<Rightarrow>
          (let inputCost = js_mul (js_div_million promptTokens) (input_of pricing);
               outputCost = js_mul (js_div_million completionTokens) (output_of pricing)
           in Some (js_add inputCost outputCost)))"


section \<open>Page splitting and word count (actors/extractor)\<close>

text \<open>What the opaque \<open>pdfParse\<close> returns, as far as the extractor reads it.\<close>

record pdf_data =
  pdf_text :: jsstring
  numpages :: nat

definition placeholder :: "nat \<Rightarrow> jsstring" where
  "placeholder n = js ''[Page '' @ decimal n @ js '' - No text extracted]''"

text \<open>
  \<open>Math.ceil(fullText.length / pageCount)\<close>. It is read only inside the loop, which
  runs only when \<open>pageCount\<close> is positive.
\<close>

definition avgCharsPerPage :: "jsstring \<Rightarrow> nat \<Rightarrow> nat" where
  "avgCharsPerPage fullText pageCount = nat \<lceil>real (length fullText) / real pageCount\<rceil>"

text \<open>The \<open>for\<close> loop of \<open>extractPDFText\<close>, with its counter and the array built so far.\<close>

function extractPDFText_loop ::
  "jsstring \<Rightarrow> nat \<Rightarrow> nat \<Rightarrow> nat \<Rightarrow> jsstring list \<Rightarrow> jsstring list" where
  "extractPDFText_loop fullText pageCount avg i pages =
     (if i < pageCount then
        (let startIdx = i * avg;
             endIdx = min ((i + 1) * avg) (length fullText);
             pageText = trim (substring fullText startIdx endIdx)
         in extractPDFText_loop fullText pageCount avg (i + 1)
              (pages @ [if pageText = [] then placeholder (i + 1) else pageText]))
      else pages)"
  by pat_completeness auto
termination
  by (relation "measure (\<lambda>(fullText, pageCount, avg, i, pages). pageCount - i)") auto

declare extractPDFText_loop.simps [simp del]

text \<open>The element that iteration \<open>k\<close> of the loop pushes.\<close>

definition page_at :: "jsstring \<Rightarrow> nat \<Rightarrow> nat \<Rightarrow> jsstring" where
  "page_at fullText avg k =
     (let pageText = trim (substring fullText (k * avg) (min ((k + 1) * avg) (length fullText)))
      in if pageText = [] then placeholder (k + 1) else pageText)"

text \<open>The part of \<open>extractPDFText\<close> after the call of \<open>pdfParse\<close>.\<close>

definition extractPDFText_pages :: "pdf_data \<Rightarrow> jsstring list" where
  "extractPDFText_pages pdfData =
     (let fullText = pdf_text pdfData;
          pageCount = numpages pdfData;
          avg = avgCharsPerPage fullText pageCount
      in extractPDFText_loop fullText pageCount avg 0 [])"

text \<open>\<open>pageText.split(/\s+/).filter(w => w.length > 0).length\<close>\<close>

definition wordCountOf :: "jsstring \<Rightarrow> nat" where
  "wordCountOf pageText = length (filter (\<lambda>w. length w > 0) (split_ws [] pageText))"

text \<open>
  The page text as the specification words it: the slice of the full text from
  \<open>(i - 1) * \<lceil>L / N\<rceil>\<close> up to \<open>min (i * \<lceil>L / N\<rceil>) L\<close>, trimmed, or the placeholder when
  that is empty. The slice is empty when its lower end is not below its upper end.
\<close>

definition spec_page_text :: "jsstring \<Rightarrow> nat \<Rightarrow> nat \<Rightarrow> jsstring" where
  "spec_page_text fullText N i =
     (let L = length fullText;
          chunk = (L + N - 1) div N;
          lo = (i - 1) * chunk;
          hi = min (i * chunk) L;
          t = trim (take (hi - lo) (drop lo fullText))
      in if t = [] then placeholder i else t)"

text \<open>
  The words of a text as the specification words them: the maximal runs of code units
  that are not white space.
\<close>

function spec_words :: "jsstring \<Rightarrow> jsstring list" where
  "spec_words [] = []"
| "spec_words (c # cs) =
     (if isWhiteSpace c then spec_words cs
      else (c # takeWhile (\<lambda>x. \<not> isWhiteSpace x) cs)
             # spec_words (dropWhile (\<lambda>x. \<not> isWhiteSpace x) cs))"
  by pat_completeness auto
termination
  by (relation "measure length") (auto simp: le_imp_less_Suc length_dropWhile_le)


section \<open>Documents (types/types.ts, utils/firebase/firebaseConstants.ts)\<close>

text \<open>
  A document id is a string. The ids that Firestore generates for \<open>.doc()\<close> without
  an argument are kept apart from the given ones and numbered, which makes them fresh.
\<close>

datatype doc_id = DocId jsstring | AutoId nat

datatype deck_status = UPLOADED | EXTRACTING | ANALYZING | COMPLETE | ERROR

datatype page_status = PENDING | EXTRACTED | ANALYZED

datatype insight_type =
  PROBLEM | SOLUTION | MARKET | TRACTION | TEAM | DESIGN | MONETIZATION | NARRATIVE

datatype session_status = Completed | Failed | No_items_found

text \<open>Timestamps are numbers of milliseconds.\<close>

record Deck =
  fileName :: jsstring
  fileSize :: nat
  fileType :: jsstring
  storagePath :: jsstring
  uploadedAt :: nat
  processedAt :: "nat option"
  status :: deck_status
  pageCount :: nat
  uploadedBy :: "jsstring option"
  errorMessage :: "jsstring option"

record Page =
  pageNumber :: nat
  pageText :: jsstring
  extractedAt :: nat
  wordCount :: nat
  pageStatus :: page_status

record Insight =
  insightType :: insight_type
  insightPageNumber :: nat
  rating :: jsnum
  feedback :: jsstring
  reasoning :: jsstring
  actorName :: jsstring
  generatedAt :: nat

text \<open>
  The values of the \<open>Record<string, any>\<close> objects that the actors log. The size
  shown by \<open>toFixed(2)\<close> is kept as the byte count it is computed from.
\<close>

datatype js_data = DataNumber nat | DataString jsstring | DataMegabytes nat

record LogEntry =
  timestamp :: nat
  message :: jsstring
  data :: "(jsstring \<times> js_data) list option"

record AutomationLog =
  action :: jsstring
  logDeckId :: "doc_id option"
  logStatus :: session_status
  startedAt :: nat
  completedAt :: "nat option"
  logEntries :: "LogEntry list"
  errors :: "jsstring list option"
  metadata :: "(jsstring \<times> js_data) list"


section \<open>The process and its surroundings\<close>

text \<open>
  What a \<open>catch\<close> clause can receive: an \<open>Error\<close> object with its message, or any
  other value, kept as the string that \<open>String(value)\<close> gives.
\<close>

datatype thrown = ErrorObject jsstring | OtherValue jsstring

fun message_of :: "thrown \<Rightarrow> jsstring" where
  "message_of (ErrorObject m) = m"
| "message_of (OtherValue s) = s"

text \<open>The lines written to the console, by the statement that writes them.\<close>

datatype console_event =
  StartingSession jsstring
| DeckContextLine jsstring
| LogLine jsstring
| ErrorLine jsstring
| NoActiveSessionWarning
| SessionEnded session_status
| FailedToWriteAutomationLog thrown
| SkippingJob jsstring
| JobError jsstring thrown

record DeckContext =
  ctx_deckId :: "doc_id option"
  ctx_fileName :: "jsstring option"

text \<open>The three private fields of \<open>LoggerClass\<close>; the process has one instance.\<close>

record LoggerClass =
  session :: "AutomationLog option"
  logs :: "LogEntry list"
  deckContext :: DeckContext

type_synonym buffer = "nat list"

text \<open>
  The state that the actors read and write: the Firestore collections (a subcollection
  entry carries the id of its deck), the storage bucket, the logger, the console, the
  clock, the counter of generated ids, and \<open>faults\<close>: for each coming call of a remote
  service, in order, whether it succeeds (\<open>None\<close>) or fails with a thrown value; past the
  end of the list every call succeeds.
\<close>

record world =
  decks :: "(doc_id \<times> Deck) list"
  pages :: "(doc_id \<times> doc_id \<times> Page) list"
  insights :: "(doc_id \<times> doc_id \<times> Insight) list"
  automationLogs :: "AutomationLog list"
  bucket :: "(jsstring \<times> buffer) list"
  autoIds :: nat
  clock :: nat
  faults :: "thrown option list"
  console :: "console_event list"
  Logger :: LoggerClass

text \<open>
  An \<open>async\<close> function, run to its end: it changes the world and either returns a value
  or rejects with a thrown value.
\<close>

type_synonym 'a io = "world \<Rightarrow> (thrown + 'a) \<times> world"

definition return_io :: "'a \<Rightarrow> 'a io" where
  "return_io x = (\<lambda>w. (Inr x, w))"

definition throw_io :: "thrown \<Rightarrow> 'a io" where
  "throw_io e = (\<lambda>w. (Inl e, w))"

definition bind_io :: "'a io \<Rightarrow> ('a \<Rightarrow> 'b io) \<Rightarrow> 'b io" where
  "bind_io m f = (\<lambda>w. case m w of (Inl e, w') \<Rightarrow> (Inl e, w') | (Inr x, w') \<Rightarrow> f x w')"

definition then_io :: "'a io \<Rightarrow> 'b io \<Rightarrow> 'b io" where
  "then_io m k = bind_io m (\<lambda>_. k)"

text \<open>\<open>try { m } catch (error) { h error }\<close>\<close>

definition catch_io :: "'a io \<Rightarrow> (thrown \<Rightarrow> 'a io) \<Rightarrow> 'a io" where
  "catch_io m h = (\<lambda>w. case m w of (Inl e, w') \<Rightarrow> h e w' | (Inr x, w') \<Rightarrow> (Inr x, w'))"

text \<open>A synchronous method that cannot throw.\<close>

definition sync :: "(world \<Rightarrow> world) \<Rightarrow> unit io" where
  "sync f = (\<lambda>w. (Inr (), f w))"

text \<open>One call of a remote service: it takes the next entry of \<open>faults\<close>.\<close>

definition remote_call :: "unit io" where
  "remote_call =
     (\<lambda>w. case faults w of
             [] \<Rightarrow> (Inr (), w)
           | None # rest \<Rightarrow> (Inr (), w\<lparr>faults := rest\<rparr>)
           | Some e # rest \<Rightarrow> (Inl e, w\<lparr>faults := rest\<rparr>))"

text \<open>The failure of the next remote call, if it is going to fail.\<close>

definition next_fault :: "world \<Rightarrow> thrown option" where
  "next_fault w = (case faults w of Some e # rest \<Rightarrow> Some e | _ \<Rightarrow> None)"

text \<open>A process that has just started, on an empty store.\<close>

definition fresh_world :: world where
  "fresh_world =
     \<lparr>decks = [], pages = [], insights = [], automationLogs = [], bucket = [],
      autoIds = 0, clock = 0, faults = [], console = [],
      Logger = \<lparr>session = None, logs = [],
                 deckContext = \<lparr>ctx_deckId = None, ctx_fileName = None\<rparr>\<rparr>\<rparr>"

definition Timestamp_now :: "world \<Rightarrow> nat" where
  "Timestamp_now w = clock w"

definition console_write :: "console_event \<Rightarrow> world \<Rightarrow> world" where
  "console_write ev w = w\<lparr>console := console w @ [ev]\<rparr>"

text \<open>The documents of a collection with the document \<open>k\<close> changed by \<open>f\<close>.\<close>

definition change_doc :: "doc_id \<Rightarrow> ('a \<Rightarrow> 'a) \<Rightarrow> (doc_id \<times> 'a) list \<Rightarrow> (doc_id \<times> 'a) list" where
  "change_doc k f docs = map (\<lambda>(i, d). if i = k then (i, f d) else (i, d)) docs"

text \<open>
  \<open>db.collection('decks').doc(id).update(change)\<close>: rejects when the document does not
  exist, and changes the fields otherwise.
\<close>

definition deck_update :: "doc_id \<Rightarrow> (Deck \<Rightarrow> Deck) \<Rightarrow> unit io" where
  "deck_update deckId change =
     then_io remote_call
       (\<lambda>w. if deckId \<in> fst ` set (decks w)
             then (Inr (), w\<lparr>decks := change_doc deckId change (decks w)\<rparr>)
             else (Inl (ErrorObject (js ''5 NOT_FOUND: No document to update'')), w))"


section \<open>Session logger (utils/logger.ts)\<close>

record startSession_params =
  ss_action :: jsstring
  ss_deckId :: "doc_id option"

record endSession_params =
  es_status :: "session_status option"
  es_metadata :: "(jsstring \<times> js_data) list option"

text \<open>The empty string is the only string that is falsy.\<close>

fun truthy_id :: "doc_id option \<Rightarrow> bool" where
  "truthy_id None = False"
| "truthy_id (Some (DocId s)) = (s \<noteq> [])"
| "truthy_id (Some (AutoId n)) = True"

definition Logger_startSession :: "startSession_params \<Rightarrow> world \<Rightarrow> world" where
  "Logger_startSession params w =
     console_write (StartingSession (ss_action params))
       (w\<lparr>Logger :=
            \<lparr>session = Some \<lparr>action = ss_action params, logDeckId = ss_deckId params,
                              logStatus = Completed, startedAt = Timestamp_now w,
                              completedAt = None, logEntries = [], errors = Some [],
                              metadata = []\<rparr>,
             logs = [],
             deckContext =
               (if truthy_id (ss_deckId params)
                then \<lparr>ctx_deckId = ss_deckId params, ctx_fileName = None\<rparr>
                else \<lparr>ctx_deckId = None, ctx_fileName = None\<rparr>)\<rparr>\<rparr>)"

text \<open>\<open>context.fileName || context.deckId\<close>, for a context whose \<open>deckId\<close> is a string.\<close>

fun id_string :: "doc_id option \<Rightarrow> jsstring" where
  "id_string (Some (DocId s)) = s"
| "id_string (Some (AutoId n)) = js ''auto-'' @ decimal n"
| "id_string None = js ''undefined''"

definition context_label :: "DeckContext \<Rightarrow> jsstring" where
  "context_label context =
     (case ctx_fileName context of
        Some name \<Rightarrow> if name \<noteq> [] then name else id_string (ctx_deckId context)
      | None \<Rightarrow> id_string (ctx_deckId context))"

definition Logger_setDeckContext :: "DeckContext \<Rightarrow> world \<Rightarrow> world" where
  "Logger_setDeckContext context w =
     console_write (DeckContextLine (context_label context))
       (w\<lparr>Logger :=
            (Logger w)\<lparr>deckContext := context,
                       session :=
                         (case session (Logger w) of
                            None \<Rightarrow> None
                          | Some s \<Rightarrow> Some (s\<lparr>logDeckId := ctx_deckId context\<rparr>))\<rparr>\<rparr>)"

definition Logger_add :: "jsstring \<Rightarrow> (jsstring \<times> js_data) list option \<Rightarrow> world \<Rightarrow> world" where
  "Logger_add msg dat w =
     console_write (LogLine msg)
       (w\<lparr>Logger :=
            (Logger w)\<lparr>logs := logs (Logger w)
                                 @ [\<lparr>timestamp = Timestamp_now w, message = msg, data = dat\<rparr>]\<rparr>\<rparr>)"

definition Logger_error :: "jsstring \<Rightarrow> thrown \<Rightarrow> world \<Rightarrow> world" where
  "Logger_error msg error w =
     (let errorMessage = message_of error
      in case session (Logger w) of
           None \<Rightarrow> console_write (ErrorLine (msg @ js '': '' @ errorMessage)) w
         | Some s \<Rightarrow>
             (let errs = (case errors s of None \<Rightarrow> [] | Some es \<Rightarrow> es);
                  s' = s\<lparr>errors := Some (errs @ [msg @ js '': '' @ errorMessage]),
                         logStatus := Failed\<rparr>
              in console_write (ErrorLine (msg @ js '': '' @ errorMessage))
                   (w\<lparr>Logger := (Logger w)\<lparr>session := Some s'\<rparr>\<rparr>)))"

text \<open>\<open>{ ...a, ...b }\<close>: the keys of \<open>a\<close> with the values that \<open>b\<close> overrides, then the new keys of \<open>b\<close>.\<close>

fun spread_put :: "jsstring \<Rightarrow> js_data \<Rightarrow> (jsstring \<times> js_data) list \<Rightarrow> (jsstring \<times> js_data) list" where
  "spread_put k v [] = [(k, v)]"
| "spread_put k v ((k', v') # rest) =
     (if k = k' then (k, v) # rest else (k', v') # spread_put k v rest)"

definition spread :: "(jsstring \<times> js_data) list \<Rightarrow> (jsstring \<times> js_data) list \<Rightarrow> (jsstring \<times> js_data) list" where
  "spread a b = foldl (\<lambda>acc (k, v). spread_put k v acc) a b"

text \<open>\<open>db.collection('automationLogs').add(entry)\<close>\<close>

definition automationLogs_add :: "AutomationLog \<Rightarrow> unit io" where
  "automationLogs_add entry =
     then_io remote_call (\<lambda>w. (Inr (), w\<lparr>automationLogs := automationLogs w @ [entry]\<rparr>))"

definition clear_session :: "world \<Rightarrow> world" where
  "clear_session w =
     w\<lparr>Logger := \<lparr>session = None, logs = [],
                   deckContext = \<lparr>ctx_deckId = None, ctx_fileName = None\<rparr>\<rparr>\<rparr>"

text \<open>The session record as \<open>endSession\<close> completes it before the write.\<close>

definition final_session :: "endSession_params \<Rightarrow> world \<Rightarrow> AutomationLog \<Rightarrow> AutomationLog" where
  "final_session params w s0 =
     (let s1 = (case es_status params of None \<Rightarrow> s0 | Some st \<Rightarrow> s0\<lparr>logStatus := st\<rparr>);
          s2 = (case es_metadata params of
                  None \<Rightarrow> s1
                | Some m \<Rightarrow> s1\<lparr>metadata := spread (metadata s1) m\<rparr>)
      in s2\<lparr>completedAt := Some (Timestamp_now w), logEntries := logs (Logger w)\<rparr>)"

definition Logger_endSession :: "endSession_params \<Rightarrow> unit io" where
  "Logger_endSession params =
     (\<lambda>w. case session (Logger w) of
             None \<Rightarrow> (Inr (), console_write NoActiveSessionWarning w)
           | Some s0 \<Rightarrow>
               (let s3 = final_session params w s0;
                    w1 = w\<lparr>Logger := (Logger w)\<lparr>session := Some s3\<rparr>\<rparr>
                in then_io
                     (catch_io
                        (then_io (automationLogs_add s3)
                           (sync (console_write (SessionEnded (logStatus s3)))))
                        (\<lambda>error. sync (console_write (FailedToWriteAutomationLog error))))
                     (sync clear_session) w1))"

definition Logger_getDeckContext :: "world \<Rightarrow> DeckContext" where
  "Logger_getDeckContext w = deckContext (Logger w)"


section \<open>Extractor job (actors/extractor)\<close>

text \<open>
  The query of \<open>findDeckToExtract\<close>: the decks with status \<open>uploaded\<close>, ordered by
  \<open>uploadedAt\<close> ascending, limited to one. Decks with equal keys keep their stored order.
\<close>

definition uploaded_query :: "world \<Rightarrow> (doc_id \<times> Deck) list" where
  "uploaded_query w =
     take 1 (sort_key (\<lambda>(i, d). uploadedAt d) (filter (\<lambda>(i, d). status d = UPLOADED) (decks w)))"

definition findDeckToExtract :: "(doc_id \<times> Deck) option io" where
  "findDeckToExtract =
     then_io remote_call
       (\<lambda>w. case uploaded_query w of
               [] \<Rightarrow> (Inr None, w)
             | doc # rest \<Rightarrow> (Inr (Some doc), w))"

text \<open>\<open>file.download()\<close> rejects when the bucket has no object at the path.\<close>

definition downloadPDF :: "jsstring \<Rightarrow> buffer io" where
  "downloadPDF path =
     then_io remote_call
       (\<lambda>w. case map_of (bucket w) path of
               None \<Rightarrow> (Inl (ErrorObject (js ''No such object'')), w)
             | Some buf \<Rightarrow> (Inr buf, w))"

text \<open>
  \<open>pdfParse\<close> belongs to a library: it is a parameter, which gives the text and the
  page count of a buffer or throws.
\<close>

definition extractPDFText :: "(buffer \<Rightarrow> thrown + pdf_data) \<Rightarrow> buffer \<Rightarrow> jsstring list io" where
  "extractPDFText pdfParse pdfBuffer =
     (case pdfParse pdfBuffer of
        Inl e \<Rightarrow> throw_io e
      | Inr pdfData \<Rightarrow> return_io (extractPDFText_pages pdfData))"

text \<open>
  The \<open>forEach\<close> of \<open>createPageDocuments\<close>: the writes that it puts into the batch, for
  the texts from position \<open>index\<close> on, with \<open>n\<close> the number of ids generated so far.
\<close>

fun batch_of :: "doc_id \<Rightarrow> nat \<Rightarrow> nat \<Rightarrow> nat \<Rightarrow> jsstring list \<Rightarrow> (doc_id \<times> doc_id \<times> Page) list" where
  "batch_of deckId now index n [] = []"
| "batch_of deckId now index n (txt # rest) =
     (deckId, AutoId n,
      \<lparr>pageNumber = index + 1, pageText = txt, extractedAt = now,
       wordCount = wordCountOf txt, pageStatus = EXTRACTED\<rparr>)
     # batch_of deckId now (index + 1) (n + 1) rest"

text \<open>\<open>batch.commit()\<close> writes all documents of the batch or, when it rejects, none.\<close>

definition createPageDocuments :: "doc_id \<Rightarrow> jsstring list \<Rightarrow> unit io" where
  "createPageDocuments deckId texts =
     (\<lambda>w. let batch = batch_of deckId (Timestamp_now w) 0 (autoIds w) texts;
               w1 = w\<lparr>autoIds := autoIds w + length texts\<rparr>
           in then_io remote_call (\<lambda>w2. (Inr (), w2\<lparr>pages := pages w2 @ batch\<rparr>)) w1)"

definition extractPDFPages_try :: "(buffer \<Rightarrow> thrown + pdf_data) \<Rightarrow> unit io" where
  "extractPDFPages_try pdfParse =
     bind_io findDeckToExtract (\<lambda>found.
       case found of
         None \<Rightarrow> Logger_endSession \<lparr>es_status = Some No_items_found, es_metadata = None\<rparr>
       | Some (deckId, deck) \<Rightarrow>
           then_io (sync (Logger_setDeckContext
                            \<lparr>ctx_deckId = Some deckId, ctx_fileName = Some (fileName deck)\<rparr>))
          (then_io (deck_update deckId (\<lambda>d. d\<lparr>status := EXTRACTING\<rparr>))
          (then_io (sync (Logger_add (js ''Downloading PDF from storage'')
                            (Some [(js ''storagePath'', DataString (storagePath deck)),
                                   (js ''fileSize'', DataMegabytes (fileSize deck))])))
          (bind_io (downloadPDF (storagePath deck)) (\<lambda>pdfBuffer.
           then_io (sync (Logger_add (js ''Extracting text from PDF'') None))
          (bind_io (extractPDFText pdfParse pdfBuffer) (\<lambda>texts.
           then_io (sync (Logger_add (js ''Creating page documents'')
                            (Some [(js ''pageCount'', DataNumber (length texts))])))
          (then_io (createPageDocuments deckId texts)
          (then_io (\<lambda>w. deck_update deckId
                            (\<lambda>d. d\<lparr>status := ANALYZING, pageCount := length texts,
                                   processedAt := Some (Timestamp_now w)\<rparr>) w)
          (then_io (sync (Logger_add (js ''PDF extraction complete'')
                            (Some [(js ''pageCount'', DataNumber (length texts))])))
                   (Logger_endSession
                      \<lparr>es_status = Some Completed,
                       es_metadata = Some [(js ''pageCount'', DataNumber (length texts))]\<rparr>)))))))))))"

definition extractPDFPages_catch :: "thrown \<Rightarrow> unit io" where
  "extractPDFPages_catch error =
     then_io (sync (Logger_error (js ''PDF extraction failed'') error))
    (then_io (Logger_endSession \<lparr>es_status = Some Failed, es_metadata = None\<rparr>)
       (\<lambda>w. let ctx = Logger_getDeckContext w
             in case ctx_deckId ctx of
                  None \<Rightarrow> (Inr (), w)
                | Some deckId \<Rightarrow>
                    if truthy_id (Some deckId)
                    then deck_update deckId
                           (\<lambda>d. d\<lparr>status := ERROR, errorMessage := Some (message_of error)\<rparr>) w
                    else (Inr (), w)))"

definition extractPDFPages :: "(buffer \<Rightarrow> thrown + pdf_data) \<Rightarrow> unit io" where
  "extractPDFPages pdfParse =
     then_io (sync (Logger_startSession \<lparr>ss_action = js ''extract_pdf'', ss_deckId = None\<rparr>))
       (catch_io (extractPDFPages_try pdfParse) extractPDFPages_catch)"

text \<open>
  No deck of the second collection has the status \<open>error\<close>, unless the same document
  with that status is in the first collection.
\<close>

definition no_new_error :: "(doc_id \<times> Deck) list \<Rightarrow> (doc_id \<times> Deck) list \<Rightarrow> bool" where
  "no_new_error before after \<longleftrightarrow> (\<forall>x \<in> set after. status (snd x) = ERROR \<longrightarrow> x \<in> set before)"


text \<open>
  An example: a store with one uploaded deck whose file is in the bucket, in a process
  that has just started.
\<close>

definition example_deck :: Deck where
  "example_deck =
     \<lparr>fileName = js ''pitch.pdf'', fileSize = 1048576, fileType = js ''application/pdf'',
      storagePath = js ''decks/pitch.pdf'', uploadedAt = 1, processedAt = None,
      status = UPLOADED, pageCount = 0, uploadedBy = None, errorMessage = None\<rparr>"

definition example_world :: world where
  "example_world =
     fresh_world\<lparr>decks := [(DocId (js ''deck1''), example_deck)],
                  bucket := [(js ''decks/pitch.pdf'', [37, 80, 68, 70])],
                  clock := 5\<rparr>"


section \<open>Critic job (actors/critic)\<close>

text \<open>
  The first query of \<open>findPageToCritique\<close>: the decks with status \<open>analyzing\<close>, ordered by
  \<open>processedAt\<close> ascending, limited to ten. Ordering by a field leaves out the documents
  that do not have the field.
\<close>

definition analyzing_decks :: "world \<Rightarrow> (nat \<times> doc_id \<times> Deck) list" where
  "analyzing_decks w =
     List.map_filter
       (\<lambda>(i, d). case processedAt d of
                   None \<Rightarrow> None
                 | Some t \<Rightarrow> if status d = ANALYZING then Some (t, i, d) else None)
       (decks w)"

definition analyzing_query :: "world \<Rightarrow> (nat \<times> doc_id \<times> Deck) list" where
  "analyzing_query w = take 10 (sort_key fst (analyzing_decks w))"

text \<open>The pages of a deck, ordered by page number ascending.\<close>

definition pages_query :: "doc_id \<Rightarrow> world \<Rightarrow> (doc_id \<times> Page) list" where
  "pages_query deckId w =
     sort_key (\<lambda>(pageId, p). pageNumber p)
       (map snd (filter (\<lambda>(parent, pageId, p). parent = deckId) (pages w)))"

text \<open>The insights of a deck with a given page number and the type \<open>problem\<close>, limited to one.\<close>

definition problem_insights_query :: "doc_id \<Rightarrow> nat \<Rightarrow> world \<Rightarrow> (doc_id \<times> Insight) list" where
  "problem_insights_query deckId n w =
     take 1 (map snd (filter (\<lambda>(parent, insightId, ins).
                                parent = deckId \<and> insightPageNumber ins = n
                                \<and> insightType ins = PROBLEM)
                             (insights w)))"

record work_item =
  item_deckId :: doc_id
  item_pageId :: doc_id
  item_page :: Page
  item_deck :: Deck

text \<open>The inner loop of \<open>findPageToCritique\<close>, over the pages of one deck.\<close>

fun scan_pages :: "doc_id \<Rightarrow> Deck \<Rightarrow> (doc_id \<times> Page) list \<Rightarrow> work_item option io" where
  "scan_pages deckId deck [] = return_io None"
| "scan_pages deckId deck ((pageId, page) # rest) =
     bind_io (then_io remote_call
                (\<lambda>w. (Inr (problem_insights_query deckId (pageNumber page) w), w)))
       (\<lambda>insightsSnapshot.
          if insightsSnapshot = []
          then return_io (Some \<lparr>item_deckId = deckId, item_pageId = pageId,
                                item_page = page, item_deck = deck\<rparr>)
          else scan_pages deckId deck rest)"

text \<open>The outer loop, over the decks of the first query.\<close>

fun scan_decks :: "(nat \<times> doc_id \<times> Deck) list \<Rightarrow> work_item option io" where
  "scan_decks [] = return_io None"
| "scan_decks ((t, deckId, deck) # rest) =
     bind_io (then_io remote_call (\<lambda>w. (Inr (pages_query deckId w), w)))
       (\<lambda>pagesSnapshot.
          bind_io (scan_pages deckId deck pagesSnapshot)
            (\<lambda>found. case found of
                        Some item \<Rightarrow> return_io (Some item)
                      | None \<Rightarrow> scan_decks rest))"

definition findPageToCritique :: "work_item option io" where
  "findPageToCritique =
     bind_io (then_io remote_call (\<lambda>w. (Inr (analyzing_query w), w)))
       (\<lambda>decksSnapshot.
          if decksSnapshot = [] then return_io None else scan_decks decksSnapshot)"

text \<open>All insights of a deck, of any type.\<close>

definition insights_query :: "doc_id \<Rightarrow> world \<Rightarrow> (doc_id \<times> Insight) list" where
  "insights_query deckId w =
     map snd (filter (\<lambda>(parent, insightId, ins). parent = deckId) (insights w))"

text \<open>The log message ends in the party popper emoji, two code units in UTF-16.\<close>

definition checkIfDeckComplete :: "doc_id \<Rightarrow> nat \<Rightarrow> unit io" where
  "checkIfDeckComplete deckId pageCnt =
     bind_io (then_io remote_call (\<lambda>w. (Inr (insights_query deckId w), w)))
       (\<lambda>insightsSnapshot.
          let insightCount = length insightsSnapshot;
              expectedInsights = pageCnt * 1
          in if insightCount \<ge> expectedInsights
             then then_io (deck_update deckId (\<lambda>d. d\<lparr>status := COMPLETE\<rparr>))
                    (sync (Logger_add (js ''Deck analysis complete! '' @ [55356, 57225])
                             (Some [(js ''totalInsights'', DataNumber insightCount)])))
             else return_io ())"


text \<open>
  The work finder as the specification words it. A page lacks the problem insight when
  no insight of its deck has its page number and the type \<open>problem\<close>; the scan order is
  the decks of the first query in their order, each with its pages in page-number order;
  the work item is the first page of the scan order that lacks the problem insight.
\<close>

definition spec_lacks_problem :: "world \<Rightarrow> work_item \<Rightarrow> bool" where
  "spec_lacks_problem w item \<longleftrightarrow>
     \<not> (\<exists>(parent, insightId, ins) \<in> set (insights w).
           parent = item_deckId item
           \<and> insightPageNumber ins = pageNumber (item_page item)
           \<and> insightType ins = PROBLEM)"

definition spec_scan_order :: "world \<Rightarrow> work_item list" where
  "spec_scan_order w =
     concat (map (\<lambda>(t, deckId, deck).
                    map (\<lambda>(pageId, page).
                           \<lparr>item_deckId = deckId, item_pageId = pageId,
                            item_page = page, item_deck = deck\<rparr>)
                        (pages_query deckId w))
                 (analyzing_query w))"

text \<open>
  An example for the critic: two decks in analysis, the second one processed earlier;
  of their three pages only page 2 of the first deck has no problem insight yet.
\<close>

definition example_insight :: "nat \<Rightarrow> Insight" where
  "example_insight n =
     \<lparr>insightType = PROBLEM, insightPageNumber = n, rating = Num 7, feedback = js ''ok'',
      reasoning = js ''fine'', actorName = js ''Critic'', generatedAt = 30\<rparr>"

definition example_page :: "nat \<Rightarrow> Page" where
  "example_page n =
     \<lparr>pageNumber = n, pageText = js ''Problem'', extractedAt = 5, wordCount = 1,
      pageStatus = EXTRACTED\<rparr>"

definition critic_world :: world where
  "critic_world =
     fresh_world
       \<lparr>decks := [(DocId (js ''deckA''),
                    example_deck\<lparr>status := ANALYZING, pageCount := 2, processedAt := Some 20\<rparr>),
                   (DocId (js ''deckB''),
                    example_deck\<lparr>status := ANALYZING, pageCount := 1, processedAt := Some 10\<rparr>)],
        pages := [(DocId (js ''deckA''), AutoId 0, example_page 2),
                  (DocId (js ''deckA''), AutoId 1, example_page 1),
                  (DocId (js ''deckB''), AutoId 2, example_page 1)],
        insights := [(DocId (js ''deckB''), AutoId 3, example_insight 1),
                     (DocId (js ''deckA''), AutoId 4, example_insight 1)]\<rparr>"

text \<open>An example for the completion check: a deck of three pages with three problem insights.\<close>

definition three_insights_world :: world where
  "three_insights_world =
     fresh_world
       \<lparr>decks := [(DocId (js ''deck3''),
                    example_deck\<lparr>status := ANALYZING, pageCount := 3, processedAt := Some 20\<rparr>)],
        insights := [(DocId (js ''deck3''), AutoId 0, example_insight 1),
                     (DocId (js ''deck3''), AutoId 1, example_insight 2),
                     (DocId (js ''deck3''), AutoId 2, example_insight 3)]\<rparr>"


section \<open>Overlap guard (actors/scheduler)\<close>

text \<open>
  The module state \<open>runningJobs\<close>, and for every job name the number of calls of the job
  function so far and the number of those whose promise has not settled yet.
\<close>

record scheduler =
  runningJobs :: "jsstring \<Rightarrow> bool option"
  invocations :: "jsstring \<Rightarrow> nat"
  pending :: "jsstring \<Rightarrow> nat"
  sched_console :: "console_event list"

definition scheduler_init :: scheduler where
  "scheduler_init =
     \<lparr>runningJobs = (\<lambda>_. None), invocations = (\<lambda>_. 0), pending = (\<lambda>_. 0), sched_console = []\<rparr>"

text \<open>
  The function that \<open>preventOverlap jobName jobFn\<close> returns runs in two pieces, since
  nothing else runs between two \<open>await\<close>s of one task: \<open>wrapper_call\<close> is the piece from the
  call up to \<open>await jobFn()\<close>, and \<open>wrapper_settle\<close> is the piece that runs when the promise
  of \<open>jobFn\<close> settles, with \<open>None\<close> for a normal return and \<open>Some error\<close> for a throw.
\<close>

definition wrapper_call :: "jsstring \<Rightarrow> scheduler \<Rightarrow> scheduler" where
  "wrapper_call jobName s =
     (if runningJobs s jobName = Some True
      then s\<lparr>sched_console := sched_console s @ [SkippingJob jobName]\<rparr>
      else s\<lparr>runningJobs := (runningJobs s)(jobName \<mapsto> True),
             invocations := (invocations s)(jobName := invocations s jobName + 1),
             pending := (pending s)(jobName := pending s jobName + 1)\<rparr>)"

definition wrapper_settle :: "jsstring \<Rightarrow> thrown option \<Rightarrow> scheduler \<Rightarrow> scheduler" where
  "wrapper_settle jobName outcome s =
     (let s1 = (case outcome of
                  None \<Rightarrow> s
                | Some error \<Rightarrow> s\<lparr>sched_console := sched_console s @ [JobError jobName error]\<rparr>)
      in s1\<lparr>runningJobs := (runningJobs s1)(jobName \<mapsto> False),
            pending := (pending s1)(jobName := pending s1 jobName - 1)\<rparr>)"

datatype sched_event = Call jsstring | Settle jsstring "thrown option"

text \<open>A promise can settle only if it is pending; other events cannot happen.\<close>

fun fire :: "sched_event \<Rightarrow> scheduler \<Rightarrow> scheduler option" where
  "fire (Call jobName) s = Some (wrapper_call jobName s)"
| "fire (Settle jobName outcome) s =
     (if pending s jobName > 0 then Some (wrapper_settle jobName outcome s) else None)"

fun run_events :: "sched_event list \<Rightarrow> scheduler \<Rightarrow> scheduler option" where
  "run_events [] s = Some s"
| "run_events (e # es) s = (case fire e s of None \<Rightarrow> None | Some s' \<Rightarrow> run_events es s')"

text \<open>
  The invariant of the guard: no job name has more than one run in flight, and a run is
  in flight exactly when the busy flag of the name is set.
\<close>

definition guard_inv :: "scheduler \<Rightarrow> bool" where
  "guard_inv s \<longleftrightarrow>
     (\<forall>n. pending s n \<le> 1 \<and> (pending s n = 1 \<longleftrightarrow> runningJobs s n = Some True))"


section \<open>Properties of the cost ledger\<close>

lemma MODEL_PRICING_get_fallback:
  "MODEL_PRICING_get (js ''gpt-4o-mini'')
     = Own \<lparr>pricing_input = 150 / 1000, pricing_output = 600 / 1000\<rparr>"
  by (simp add: MODEL_PRICING_get_def MODEL_PRICING_def js_def)

lemma calculateCost_fallback:
  assumes "MODEL_PRICING_get model = Undefined"
  shows "calculateCost model p c = calculateCost (js ''gpt-4o-mini'') p c"
  by (subst calculateCost.simps) (simp add: assms)

lemma calculateCost_own:
  assumes "MODEL_PRICING_get model = Own pricing"
  shows "calculateCost model (Num p) (Num c)
           = Some (Num (p / 1000000 * pricing_input pricing + c / 1000000 * pricing_output pricing))"
  by (subst calculateCost.simps) (simp add: assms)

lemma calculateCost_inherited:
  assumes "MODEL_PRICING_get model = Inherited"
  shows "calculateCost model p c = Some NaN"
  by (subst calculateCost.simps) (cases p; cases c; simp add: assms)

lemma calculateCost_table:
  assumes "map_of MODEL_PRICING model = Some pricing"
  shows "calculateCost model (Num p) (Num c)
           = Some (Num (p / 1000000 * pricing_input pricing + c / 1000000 * pricing_output pricing))"
  using assms by (intro calculateCost_own) (simp add: MODEL_PRICING_get_def)

lemma calculateCost_unknown:
  assumes "map_of MODEL_PRICING model = None" and "model \<notin> set Object_prototype_names"
  shows "calculateCost model p c = calculateCost (js ''gpt-4o-mini'') p c"
  using assms by (intro calculateCost_fallback) (simp add: MODEL_PRICING_get_def)

lemma calculateCost_unknown_xyz:
  "calculateCost (js ''unknown-model-xyz'') (Num 1000) (Num 1000)
     = calculateCost (js ''gpt-4o-mini'') (Num 1000) (Num 1000)"
  by (rule calculateCost_unknown)
     (simp_all add: MODEL_PRICING_def Object_prototype_names_def js_def)

text \<open>
  C9. The claim: for every model string that is not in the pricing table,
  \<open>calculateCost\<close> gives what it gives for \<open>gpt-4o-mini\<close>. The code misses the names
  that every object inherits from \<open>Object.prototype\<close>: \<open>constructor\<close> is not a key of
  the table, yet \<open>MODEL_PRICING['constructor']\<close> is truthy, the fallback is not taken,
  and the result is \<open>NaN\<close>, while the fallback model costs 0.00075 for the same tokens.
\<close>

theorem calculateCost_constructor_no_fallback:
  "map_of MODEL_PRICING (js ''constructor'') = None
   \<and> calculateCost (js ''constructor'') (Num 1000) (Num 1000) = Some NaN
   \<and> calculateCost (js ''gpt-4o-mini'') (Num 1000) (Num 1000) = Some (Num (3 / 4000))"
proof (intro conjI)
  show "map_of MODEL_PRICING (js ''constructor'') = None"
    by (simp add: MODEL_PRICING_def js_def)
  have "MODEL_PRICING_get (js ''constructor'') = Inherited"
    by (simp add: MODEL_PRICING_get_def MODEL_PRICING_def Object_prototype_names_def js_def)
  then show "calculateCost (js ''constructor'') (Num 1000) (Num 1000) = Some NaN"
    by (rule calculateCost_inherited)
  show "calculateCost (js ''gpt-4o-mini'') (Num 1000) (Num 1000) = Some (Num (3 / 4000))"
    by (simp add: calculateCost_own [OF MODEL_PRICING_get_fallback])
qed

lemma calculateCost_depth_one:
  "calculateCost model p c = calculateCost_depth 1 model p c"
proof (cases "MODEL_PRICING_get model")
  case Undefined
  have "calculateCost model p c = calculateCost (js ''gpt-4o-mini'') p c"
    by (rule calculateCost_fallback [OF Undefined])
  also have "\<dots> = calculateCost_depth 0 (js ''gpt-4o-mini'') p c"
    by (subst calculateCost.simps) (simp add: MODEL_PRICING_get_fallback)
  also have "\<dots> = calculateCost_depth 1 model p c"
    by (simp add: Undefined)
  finally show ?thesis .
next
  case (Own pricing)
  then show ?thesis by (subst calculateCost.simps) simp
next
  case Inherited
  then show ?thesis by (subst calculateCost.simps) simp
qed

lemma calculateCost_depth_one_returns:
  "\<exists>y. calculateCost_depth 1 model p c = Some y"
  by (cases "MODEL_PRICING_get model") (simp_all add: MODEL_PRICING_get_fallback)

text \<open>
  C10. \<open>calculateCost\<close> returns for every model string and all token counts. The
  recursive call is taken only for a model that is not a key of \<open>MODEL_PRICING\<close>, the
  fallback \<open>gpt-4o-mini\<close> is a key, and one level of recursion is always enough: the
  function agrees with its variant that allows a single recursive call.
\<close>

theorem calculateCost_total:
  "(\<exists>y. calculateCost model p c = Some y)
   \<and> calculateCost model p c = calculateCost_depth 1 model p c
   \<and> (MODEL_PRICING_get model = Undefined \<longrightarrow> map_of MODEL_PRICING model = None)
   \<and> map_of MODEL_PRICING (js ''gpt-4o-mini'') \<noteq> None"
proof (intro conjI)
  show "\<exists>y. calculateCost model p c = Some y"
    using calculateCost_depth_one_returns [of model p c]
    by (simp add: calculateCost_depth_one)
  show "calculateCost model p c = calculateCost_depth 1 model p c"
    by (rule calculateCost_depth_one)
  show "MODEL_PRICING_get model = Undefined \<longrightarrow> map_of MODEL_PRICING model = None"
    by (auto simp: MODEL_PRICING_get_def split: option.splits)
  show "map_of MODEL_PRICING (js ''gpt-4o-mini'') \<noteq> None"
    by (simp add: MODEL_PRICING_def js_def)
qed

theorem calculateCost_total_witness:
  "MODEL_PRICING_get (js ''unknown-model-xyz'') = Undefined
   \<and> map_of MODEL_PRICING (js ''unknown-model-xyz'') = None
   \<and> calculateCost (js ''unknown-model-xyz'') (Num 1000) (Num 1000) = Some (Num (3 / 4000))"
proof -
  have u: "MODEL_PRICING_get (js ''unknown-model-xyz'') = Undefined"
    by (simp add: MODEL_PRICING_get_def MODEL_PRICING_def Object_prototype_names_def js_def)
  have d: "calculateCost_depth 1 (js ''unknown-model-xyz'') (Num 1000) (Num 1000)
             = Some (Num (3 / 4000))"
    by (simp add: u MODEL_PRICING_get_fallback)
  show ?thesis
    using calculateCost_total [of "js ''unknown-model-xyz''" "Num 1000" "Num 1000"] u d
    by simp
qed

section \<open>Properties of the page splitter\<close>

lemma ceil_div_nat:
  assumes "0 < N"
  shows "nat \<lceil>real L / real N\<rceil> = (L + N - 1) div N"
proof -
  define q where "q = (L + N - 1) div N"
  have "q * N \<le> L + N - 1"
    unfolding q_def by simp
  then have up: "q * N < L + N"
    using assms by linarith
  have "L + N - 1 < N + q * N"
    unfolding q_def using assms dividend_less_times_div [of N "L + N - 1"] by (simp add: mult.commute)
  then have lo: "L \<le> q * N"
    using assms by linarith
  have "real L \<le> real (q * N)"
    using lo by (simp only: of_nat_le_iff)
  then have a: "real L / real N \<le> real_of_int (int q)"
    using assms by (simp add: pos_divide_le_eq)
  have "real (q * N) < real (L + N)"
    using up by (simp only: of_nat_less_iff)
  then have "(real q - 1) * real N < real L"
    by (simp add: algebra_simps)
  then have "real q - 1 < real L / real N"
    using assms by (simp only: pos_less_divide_eq of_nat_0_less_iff)
  then have b: "real_of_int (int q) - 1 < real L / real N"
    by simp
  have "\<lceil>real L / real N\<rceil> = int q"
    using b a by (rule ceiling_unique)
  then show ?thesis
    by (simp add: q_def)
qed

lemma substring_slice:
  assumes "a \<le> b"
  shows "substring s a (min b (length s)) = take (min b (length s) - a) (drop a s)"
  using assms by (auto simp: substring_def Let_def min_def max_def)

lemma extractPDFText_loop_map:
  "i \<le> N \<Longrightarrow> extractPDFText_loop t N avg i acc = acc @ map (page_at t avg) [i..<N]"
proof (induction t N avg i acc rule: extractPDFText_loop.induct)
  case (1 fullText n avg i acc)
  show ?case
  proof (cases "i < n")
    case True
    then have le: "i + 1 \<le> n"
      by simp
    have "extractPDFText_loop fullText n avg i acc
            = extractPDFText_loop fullText n avg (i + 1) (acc @ [page_at fullText avg i])"
      by (subst extractPDFText_loop.simps) (simp only: True if_True Let_def page_at_def)
    also have "\<dots> = (acc @ [page_at fullText avg i]) @ map (page_at fullText avg) [i + 1..<n]"
      using "1.IH" [OF True refl refl refl le] unfolding page_at_def Let_def .
    also have "\<dots> = acc @ map (page_at fullText avg) [i..<n]"
      using True by (simp add: upt_conv_Cons)
    finally show ?thesis .
  next
    case False
    with "1.prems" show ?thesis
      by (subst extractPDFText_loop.simps) simp
  qed
qed

lemma extractPDFText_pages_map:
  "extractPDFText_pages pdfData
     = map (page_at (pdf_text pdfData) (avgCharsPerPage (pdf_text pdfData) (numpages pdfData)))
         [0..<numpages pdfData]"
  by (simp add: extractPDFText_pages_def Let_def extractPDFText_loop_map)

lemma page_at_spec:
  assumes "0 < N"
  shows "page_at fullText (avgCharsPerPage fullText N) k = spec_page_text fullText N (k + 1)"
proof -
  have "k * c \<le> (k + 1) * c" for c :: nat
    by simp
  then show ?thesis
    by (simp add: page_at_def spec_page_text_def Let_def avgCharsPerPage_def
        ceil_div_nat [OF assms] substring_slice)
qed

lemma extractPDFText_pages_slices:
  assumes "1 \<le> numpages pdfData"
  shows "length (extractPDFText_pages pdfData) = numpages pdfData
         \<and> (\<forall>i. 1 \<le> i \<and> i \<le> numpages pdfData \<longrightarrow>
                extractPDFText_pages pdfData ! (i - 1)
                  = spec_page_text (pdf_text pdfData) (numpages pdfData) i)"
proof (intro conjI allI impI)
  show "length (extractPDFText_pages pdfData) = numpages pdfData"
    by (simp add: extractPDFText_pages_map)
next
  fix i
  assume i: "1 \<le> i \<and> i \<le> numpages pdfData"
  then have "i - 1 < numpages pdfData"
    by linarith
  then have "extractPDFText_pages pdfData ! (i - 1)
               = page_at (pdf_text pdfData)
                   (avgCharsPerPage (pdf_text pdfData) (numpages pdfData)) (i - 1)"
    by (simp add: extractPDFText_pages_map)
  also have "\<dots> = spec_page_text (pdf_text pdfData) (numpages pdfData) (i - 1 + 1)"
    using assms by (intro page_at_spec) simp
  finally show "extractPDFText_pages pdfData ! (i - 1)
                  = spec_page_text (pdf_text pdfData) (numpages pdfData) i"
    using i by simp
qed

text \<open>
  C5. When \<open>pdfParse\<close> yields a full text of length \<open>L\<close> and a reported page count
  \<open>N \<ge> 1\<close>, \<open>extractPDFText\<close> returns normally, changes nothing, and returns exactly \<open>N\<close>
  page texts, where page \<open>i\<close> (counted from 1) is the trimmed slice of the full text from
  \<open>(i - 1) * \<lceil>L / N\<rceil>\<close> to \<open>min (i * \<lceil>L / N\<rceil>) L\<close>, or the placeholder
  \<open>[Page i - No text extracted]\<close> when the trimmed slice is empty.
\<close>

theorem extractPDFText_spec:
  assumes "pdfParse buf = Inr pdfData" and "1 \<le> numpages pdfData"
  shows "\<exists>ps. extractPDFText pdfParse buf w = (Inr ps, w)
           \<and> length ps = numpages pdfData
           \<and> (\<forall>i. 1 \<le> i \<and> i \<le> numpages pdfData \<longrightarrow>
                  ps ! (i - 1) = spec_page_text (pdf_text pdfData) (numpages pdfData) i)"
proof (intro exI conjI)
  show "extractPDFText pdfParse buf w = (Inr (extractPDFText_pages pdfData), w)"
    by (simp add: extractPDFText_def assms(1) return_io_def)
  show "length (extractPDFText_pages pdfData) = numpages pdfData"
    using extractPDFText_pages_slices [OF assms(2)] by simp
  show "\<forall>i. 1 \<le> i \<and> i \<le> numpages pdfData \<longrightarrow>
          extractPDFText_pages pdfData ! (i - 1)
            = spec_page_text (pdf_text pdfData) (numpages pdfData) i"
    using extractPDFText_pages_slices [OF assms(2)] by simp
qed

theorem extractPDFText_spec_witness:
  "(\<lambda>buf. Inr \<lparr>pdf_text = js ''ab   '', numpages = 3\<rparr> :: thrown + pdf_data) [37, 80, 68, 70]
     = Inr \<lparr>pdf_text = js ''ab   '', numpages = 3\<rparr>
   \<and> 1 \<le> numpages \<lparr>pdf_text = js ''ab   '', numpages = 3\<rparr>
   \<and> (\<exists>ps. extractPDFText (\<lambda>buf. Inr \<lparr>pdf_text = js ''ab   '', numpages = 3\<rparr>)
                 [37, 80, 68, 70] fresh_world = (Inr ps, fresh_world)
          \<and> length ps = 3
          \<and> ps ! 0 = js ''ab''
          \<and> ps ! 1 = js ''[Page 2 - No text extracted]''
          \<and> ps ! 2 = js ''[Page 3 - No text extracted]'')"
proof -
  have h1: "(\<lambda>buf. Inr \<lparr>pdf_text = js ''ab   '', numpages = 3\<rparr> :: thrown + pdf_data)
              [37, 80, 68, 70 :: nat]
            = Inr \<lparr>pdf_text = js ''ab   '', numpages = 3\<rparr>"
    by simp
  have h2: "1 \<le> numpages \<lparr>pdf_text = js ''ab   '', numpages = 3\<rparr>"
    by simp
  have s1: "spec_page_text (js ''ab   '') 3 1 = js ''ab''"
    by (simp add: spec_page_text_def Let_def trim_def isWhiteSpace_def js_def)
  have s2: "spec_page_text (js ''ab   '') 3 2 = js ''[Page 2 - No text extracted]''"
    by (simp add: spec_page_text_def Let_def trim_def isWhiteSpace_def placeholder_def js_def)
  have s3: "spec_page_text (js ''ab   '') 3 3 = js ''[Page 3 - No text extracted]''"
    by (simp add: spec_page_text_def Let_def trim_def isWhiteSpace_def placeholder_def js_def)
  from extractPDFText_spec
         [where pdfParse = "\<lambda>buf. Inr \<lparr>pdf_text = js ''ab   '', numpages = 3\<rparr>"
            and w = fresh_world, OF h1 h2]
  obtain ps where r: "extractPDFText (\<lambda>buf. Inr \<lparr>pdf_text = js ''ab   '', numpages = 3\<rparr>)
                        [37, 80, 68, 70] fresh_world = (Inr ps, fresh_world)"
    and l: "length ps = 3"
    and n: "\<And>i. 1 \<le> i \<and> i \<le> 3 \<Longrightarrow> ps ! (i - 1) = spec_page_text (js ''ab   '') 3 i"
    by auto
  have "ps ! 0 = js ''ab''"
    using n [of 1] s1 by simp
  moreover have "ps ! 1 = js ''[Page 2 - No text extracted]''"
    using n [of 2] s2 by simp
  moreover have "ps ! 2 = js ''[Page 3 - No text extracted]''"
    using n [of 3] s3 by simp
  ultimately show ?thesis
    using r l by auto
qed


lemma spec_words_skip: "spec_words (dropWhile isWhiteSpace s) = spec_words s"
  by (induction s) auto

lemma spec_words_first:
  "spec_words s = filter (\<lambda>w. length w > 0) [takeWhile (\<lambda>x. \<not> isWhiteSpace x) s]
                  @ spec_words (dropWhile (\<lambda>x. \<not> isWhiteSpace x) s)"
  by (cases s) auto

lemma split_ws_words:
  "filter (\<lambda>w. length w > 0) (split_ws piece s)
     = filter (\<lambda>w. length w > 0) [piece @ takeWhile (\<lambda>x. \<not> isWhiteSpace x) s]
       @ spec_words (dropWhile (\<lambda>x. \<not> isWhiteSpace x) s)"
proof (induction piece s rule: split_ws.induct)
  case (1 piece)
  show ?case by simp
next
  case (2 piece c cs)
  show ?case
  proof (cases "isWhiteSpace c")
    case True
    have "filter (\<lambda>w. length w > 0) (split_ws [] (dropWhile isWhiteSpace cs))
            = spec_words (dropWhile isWhiteSpace cs)"
      using "2.IH"(1) [OF True] spec_words_first [of "dropWhile isWhiteSpace cs"] by simp
    then show ?thesis
      using True by (simp add: spec_words_skip)
  next
    case False
    then show ?thesis
      using "2.IH"(2) [OF False] by simp
  qed
qed

lemma wordCountOf_words: "wordCountOf t = length (spec_words t)"
  using split_ws_words [of "[]" t] spec_words_first [of t]
  by (simp add: wordCountOf_def)



section \<open>Properties of the session logger\<close>

lemmas io_defs = return_io_def throw_io_def bind_io_def then_io_def catch_io_def sync_def

lemma remote_call_cases:
  "remote_call w = (case next_fault w of
                      None \<Rightarrow> (Inr (), w\<lparr>faults := tl (faults w)\<rparr>)
                    | Some e \<Rightarrow> (Inl e, w\<lparr>faults := tl (faults w)\<rparr>))"
  by (auto simp: remote_call_def next_fault_def split: list.splits option.splits)

lemma next_fault_simps [simp]:
  "next_fault (w\<lparr>Logger := l\<rparr>) = next_fault w"
  "next_fault (w\<lparr>console := c\<rparr>) = next_fault w"
  "next_fault (w\<lparr>decks := ds\<rparr>) = next_fault w"
  "next_fault (w\<lparr>pages := ps\<rparr>) = next_fault w"
  "next_fault (w\<lparr>autoIds := n\<rparr>) = next_fault w"
  "next_fault (w\<lparr>automationLogs := al\<rparr>) = next_fault w"
  by (simp_all add: next_fault_def)

lemma Logger_endSession_inactive:
  assumes "session (Logger w) = None"
  shows "Logger_endSession params w = (Inr (), console_write NoActiveSessionWarning w)"
  using assms by (simp add: Logger_endSession_def)

lemma Logger_endSession_active:
  assumes "session (Logger w) = Some s0"
  shows "Logger_endSession params w =
           (Inr (),
            (case next_fault w of
               None \<Rightarrow>
                 clear_session
                   (console_write (SessionEnded (logStatus (final_session params w s0)))
                      (w\<lparr>Logger := (Logger w)\<lparr>session := Some (final_session params w s0)\<rparr>,
                         faults := tl (faults w),
                         automationLogs := automationLogs w @ [final_session params w s0]\<rparr>))
             | Some e \<Rightarrow>
                 clear_session
                   (console_write (FailedToWriteAutomationLog e)
                      (w\<lparr>Logger := (Logger w)\<lparr>session := Some (final_session params w s0)\<rparr>,
                         faults := tl (faults w)\<rparr>))))"
  using assms
  by (simp add: Logger_endSession_def Let_def io_defs automationLogs_add_def remote_call_cases
      console_write_def clear_session_def split: option.splits)


lemma Logger_error_active:
  assumes "session (Logger w) = Some s"
  shows "session (Logger (Logger_error msg error w))
           = Some (s\<lparr>errors := Some ((case errors s of None \<Rightarrow> [] | Some es \<Rightarrow> es)
                                         @ [msg @ js '': '' @ message_of error]),
                      logStatus := Failed\<rparr>)"
  using assms by (simp add: Logger_error_def Let_def console_write_def)

lemma Logger_error_frame:
  "automationLogs (Logger_error msg error w) = automationLogs w"
  "faults (Logger_error msg error w) = faults w"
  "next_fault (Logger_error msg error w) = next_fault w"
  by (simp_all add: Logger_error_def Let_def console_write_def next_fault_def split: option.splits)

lemma final_session_status:
  "logStatus (final_session params w s0)
     = (case es_status params of None \<Rightarrow> logStatus s0 | Some st \<Rightarrow> st)"
  "errors (final_session params w s0) = errors s0"
  by (simp_all add: final_session_def Let_def split: option.splits)

lemma Logger_endSession_logs:
  assumes "session (Logger w) = Some s0" and "next_fault w = None"
  shows "automationLogs (snd (Logger_endSession params w))
           = automationLogs w @ [final_session params w s0]"
  using assms
  by (simp add: Logger_endSession_active clear_session_def console_write_def)

text \<open>
  C7. While a session is active, \<open>Logger.error("x", new Error("y"))\<close> appends \<open>"x: y"\<close> to
  the error list of the session and sets its status to \<open>failed\<close>. A following \<open>endSession\<close>
  without a status argument writes the session with status \<open>failed\<close>; with a status
  argument it writes the session with that status. (The write is the one that
  \<open>endSession\<close> attempts; it is stated here for a run in which it does not fail.)
\<close>

theorem Logger_error_then_endSession:
  assumes "session (Logger w) = Some s"
    and "next_fault w = None"
  shows "session (Logger (Logger_error (js ''x'') (ErrorObject (js ''y'')) w))
           = Some (s\<lparr>errors := Some ((case errors s of None \<Rightarrow> [] | Some es \<Rightarrow> es)
                                         @ [js ''x: y'']),
                      logStatus := Failed\<rparr>)
         \<and> (\<exists>r. automationLogs
                    (snd (Logger_endSession \<lparr>es_status = None, es_metadata = m\<rparr>
                           (Logger_error (js ''x'') (ErrorObject (js ''y'')) w)))
                   = automationLogs w @ [r]
                 \<and> logStatus r = Failed
                 \<and> errors r = Some ((case errors s of None \<Rightarrow> [] | Some es \<Rightarrow> es)
                                      @ [js ''x: y'']))
         \<and> (\<exists>r. automationLogs
                    (snd (Logger_endSession \<lparr>es_status = Some st, es_metadata = m\<rparr>
                           (Logger_error (js ''x'') (ErrorObject (js ''y'')) w)))
                   = automationLogs w @ [r]
                 \<and> logStatus r = st)"
proof -
  let ?w1 = "Logger_error (js ''x'') (ErrorObject (js ''y'')) w"
  let ?s1 = "s\<lparr>errors := Some ((case errors s of None \<Rightarrow> [] | Some es \<Rightarrow> es) @ [js ''x: y'']),
                logStatus := Failed\<rparr>"
  have s1: "session (Logger ?w1) = Some ?s1"
    using Logger_error_active [OF assms(1), of "js ''x''" "ErrorObject (js ''y'')"]
    by (simp add: js_def)
  have nf: "next_fault ?w1 = None"
    using assms(2) by (simp add: Logger_error_frame)
  have logs: "automationLogs (snd (Logger_endSession params ?w1))
                = automationLogs w @ [final_session params ?w1 ?s1]" for params
    using Logger_endSession_logs [OF s1 nf, of params] by (simp add: Logger_error_frame)
  show ?thesis
  proof (intro conjI)
    show "session (Logger ?w1) = Some ?s1"
      by (rule s1)
    show "\<exists>r. automationLogs (snd (Logger_endSession \<lparr>es_status = None, es_metadata = m\<rparr> ?w1))
                = automationLogs w @ [r]
              \<and> logStatus r = Failed
              \<and> errors r = Some ((case errors s of None \<Rightarrow> [] | Some es \<Rightarrow> es) @ [js ''x: y''])"
      by (rule exI [of _ "final_session \<lparr>es_status = None, es_metadata = m\<rparr> ?w1 ?s1"])
         (simp add: logs final_session_status)
    show "\<exists>r. automationLogs (snd (Logger_endSession \<lparr>es_status = Some st, es_metadata = m\<rparr> ?w1))
                = automationLogs w @ [r]
              \<and> logStatus r = st"
      by (rule exI [of _ "final_session \<lparr>es_status = Some st, es_metadata = m\<rparr> ?w1 ?s1"])
         (simp add: logs final_session_status)
  qed
qed

theorem Logger_error_then_endSession_witness:
  "session (Logger (Logger_startSession \<lparr>ss_action = js ''extract_pdf'', ss_deckId = None\<rparr>
                      fresh_world))
     = Some \<lparr>action = js ''extract_pdf'', logDeckId = None, logStatus = Completed,
              startedAt = 0, completedAt = None, logEntries = [], errors = Some [],
              metadata = []\<rparr>
   \<and> next_fault (Logger_startSession \<lparr>ss_action = js ''extract_pdf'', ss_deckId = None\<rparr>
                      fresh_world) = None
   \<and> (\<exists>r. automationLogs
              (snd (Logger_endSession \<lparr>es_status = None, es_metadata = None\<rparr>
                     (Logger_error (js ''x'') (ErrorObject (js ''y''))
                        (Logger_startSession \<lparr>ss_action = js ''extract_pdf'', ss_deckId = None\<rparr>
                           fresh_world)))) = [r]
            \<and> logStatus r = Failed \<and> errors r = Some [js ''x: y''])
   \<and> (\<exists>r. automationLogs
              (snd (Logger_endSession \<lparr>es_status = Some Completed, es_metadata = None\<rparr>
                     (Logger_error (js ''x'') (ErrorObject (js ''y''))
                        (Logger_startSession \<lparr>ss_action = js ''extract_pdf'', ss_deckId = None\<rparr>
                           fresh_world)))) = [r]
            \<and> logStatus r = Completed)"
proof -
  let ?W = "Logger_startSession \<lparr>ss_action = js ''extract_pdf'', ss_deckId = None\<rparr> fresh_world"
  let ?S = "\<lparr>action = js ''extract_pdf'', logDeckId = None, logStatus = Completed,
             startedAt = 0, completedAt = None, logEntries = [], errors = Some [],
             metadata = []\<rparr>"
  have h1: "session (Logger ?W) = Some ?S"
    by (simp add: Logger_startSession_def console_write_def fresh_world_def Timestamp_now_def)
  have h2: "next_fault ?W = None"
    by (simp add: Logger_startSession_def console_write_def fresh_world_def next_fault_def)
  have a: "automationLogs ?W = []"
    by (simp add: Logger_startSession_def console_write_def fresh_world_def)
  from Logger_error_then_endSession [OF h1 h2, of None Completed] h1 h2
  show ?thesis
    by (simp add: a)
qed

text \<open>
  C8 as it is claimed says that \<open>endSession\<close> always leaves an empty log buffer and an
  empty deck context. Without an active session it returns before the clearing: in a
  process that has just started, \<open>Logger.add("m")\<close> followed by \<open>Logger.endSession()\<close>
  leaves the entry in the buffer.
\<close>

theorem Logger_endSession_keeps_buffer_without_session:
  "session (Logger (Logger_add (js ''m'') None fresh_world)) = None
   \<and> logs (Logger (snd (Logger_endSession \<lparr>es_status = None, es_metadata = None\<rparr>
                           (Logger_add (js ''m'') None fresh_world)))) \<noteq> []"
  by (simp add: Logger_endSession_def Logger_add_def console_write_def fresh_world_def)

text \<open>
  C8, as the code has it. \<open>Logger.endSession\<close> never throws. Without an active session
  it writes a warning and nothing else: no remote call is made, and the log buffer and
  the deck context stay as they are. With an active session it makes exactly one
  remote call, the append of the completed session; whether the append succeeds or
  fails, the call returns normally and the session, the log buffer and the deck
  context are cleared, and a failed append leaves the collection unchanged.
\<close>

theorem Logger_endSession_never_throws:
  "\<exists>w'. Logger_endSession params w = (Inr (), w')
        \<and> (session (Logger w) = None \<longrightarrow> w' = console_write NoActiveSessionWarning w)
        \<and> (\<forall>s0. session (Logger w) = Some s0 \<longrightarrow>
               Logger w' = \<lparr>session = None, logs = [],
                              deckContext = \<lparr>ctx_deckId = None, ctx_fileName = None\<rparr>\<rparr>
               \<and> faults w' = tl (faults w)
               \<and> automationLogs w'
                   = (case next_fault w of
                        None \<Rightarrow> automationLogs w @ [final_session params w s0]
                      | Some e \<Rightarrow> automationLogs w))"
proof (cases "session (Logger w)")
  case None
  then show ?thesis
    by (simp add: Logger_endSession_inactive)
next
  case (Some s0)
  then show ?thesis
    by (simp add: Logger_endSession_active clear_session_def console_write_def
        split: option.splits)
qed

theorem Logger_endSession_never_throws_witness:
  "session (Logger fresh_world) = None
   \<and> Logger_endSession \<lparr>es_status = None, es_metadata = None\<rparr> fresh_world
       = (Inr (), console_write NoActiveSessionWarning fresh_world)
   \<and> session (Logger (Logger_startSession \<lparr>ss_action = js ''extract_pdf'', ss_deckId = None\<rparr>
                        (fresh_world\<lparr>faults := [Some (ErrorObject (js ''UNAVAILABLE''))]\<rparr>)))
       \<noteq> None
   \<and> (\<exists>w'. Logger_endSession \<lparr>es_status = None, es_metadata = None\<rparr>
               (Logger_startSession \<lparr>ss_action = js ''extract_pdf'', ss_deckId = None\<rparr>
                  (fresh_world\<lparr>faults := [Some (ErrorObject (js ''UNAVAILABLE''))]\<rparr>))
             = (Inr (), w')
          \<and> Logger w' = \<lparr>session = None, logs = [],
                           deckContext = \<lparr>ctx_deckId = None, ctx_fileName = None\<rparr>\<rparr>
          \<and> faults w' = []
          \<and> automationLogs w' = [])"
proof -
  let ?P = "\<lparr>es_status = None, es_metadata = None\<rparr>"
  let ?W = "Logger_startSession \<lparr>ss_action = js ''extract_pdf'', ss_deckId = None\<rparr>
              (fresh_world\<lparr>faults := [Some (ErrorObject (js ''UNAVAILABLE''))]\<rparr>)"
  let ?S = "\<lparr>action = js ''extract_pdf'', logDeckId = None, logStatus = Completed,
             startedAt = 0, completedAt = None, logEntries = [], errors = Some [],
             metadata = []\<rparr>"
  have n: "session (Logger fresh_world) = None"
    by (simp add: fresh_world_def)
  have s: "session (Logger ?W) = Some ?S"
    by (simp add: Logger_startSession_def console_write_def fresh_world_def Timestamp_now_def)
  have f: "faults ?W = [Some (ErrorObject (js ''UNAVAILABLE''))]"
      "next_fault ?W = Some (ErrorObject (js ''UNAVAILABLE''))" "automationLogs ?W = []"
    by (simp_all add: Logger_startSession_def console_write_def fresh_world_def next_fault_def)
  from Logger_endSession_never_throws [of ?P fresh_world]
       Logger_endSession_never_throws [of ?P ?W]
  show ?thesis
    by (auto simp: n s f)
qed


section \<open>Properties of the extractor job\<close>

lemma remote_call_ok:
  assumes "faults w = []"
  shows "remote_call w = (Inr (), w)"
  using assms by (simp add: remote_call_def)

lemma uploaded_query_mem:
  assumes "uploaded_query w = (deckId, deck) # rest"
  shows "(deckId, deck) \<in> set (decks w)" and "status deck = UPLOADED"
proof -
  let ?xs = "sort_key (\<lambda>(i, d). uploadedAt d) (filter (\<lambda>(i, d). status d = UPLOADED) (decks w))"
  have "(deckId, deck) \<in> set (take 1 ?xs)"
    using assms by (simp add: uploaded_query_def)
  then have "(deckId, deck) \<in> set ?xs"
    by (rule in_set_takeD)
  then show "(deckId, deck) \<in> set (decks w)" and "status deck = UPLOADED"
    by auto
qed

lemma fst_change_doc [simp]: "map fst (change_doc k f docs) = map fst docs"
  by (induction docs) (auto simp: change_doc_def)

lemma fst_set_change_doc [simp]: "fst ` set (change_doc k f docs) = fst ` set docs"
  using fst_change_doc [of k f docs] by (metis set_map)

lemma change_doc_twice [simp]:
  "change_doc k g (change_doc k f docs) = change_doc k (\<lambda>d. g (f d)) docs"
  by (induction docs) (auto simp: change_doc_def)

lemma map_of_change_doc:
  "map_of (change_doc k f docs) i = (if i = k then map_option f (map_of docs k) else map_of docs i)"
  by (induction docs) (auto simp: change_doc_def)

lemma deck_update_ok:
  assumes "faults w = []" and "deckId \<in> fst ` set (decks w)"
  shows "deck_update deckId change w = (Inr (), w\<lparr>decks := change_doc deckId change (decks w)\<rparr>)"
  using assms by (simp add: deck_update_def io_defs remote_call_ok)

lemma uploaded_query_frame [simp]:
  "uploaded_query (w\<lparr>Logger := l\<rparr>) = uploaded_query w"
  "uploaded_query (w\<lparr>console := c\<rparr>) = uploaded_query w"
  by (simp_all add: uploaded_query_def)

lemma extractPDFPages_success:
  assumes "faults w = []"
    and "uploaded_query w = (deckId, deck) # rest"
    and "map_of (bucket w) (storagePath deck) = Some buf"
    and "pdfParse buf = Inr pdfData"
  shows "\<exists>w'. extractPDFPages pdfParse w = (Inr (), w')
          \<and> pages w' = pages w @ batch_of deckId (clock w) 0 (autoIds w) (extractPDFText_pages pdfData)
          \<and> decks w' = change_doc deckId
                            (\<lambda>d. d\<lparr>status := ANALYZING,
                                   pageCount := length (extractPDFText_pages pdfData),
                                   processedAt := Some (clock w)\<rparr>) (decks w)"
proof -
  have mem: "deckId \<in> fst ` set (decks w)"
    using uploaded_query_mem(1) [OF assms(2)] by force
  show ?thesis
    using assms mem
    by (simp add: extractPDFPages_def extractPDFPages_try_def io_defs findDeckToExtract_def
        remote_call_ok Logger_startSession_def console_write_def Logger_setDeckContext_def
        deck_update_def Logger_add_def downloadPDF_def extractPDFText_def createPageDocuments_def
        Timestamp_now_def Let_def Logger_endSession_def automationLogs_add_def clear_session_def
        final_session_def)
qed

lemma batch_of_numbers:
  "map (\<lambda>(parent, pageId, p). (parent, pageNumber p, pageText p)) (batch_of deckId now k n texts)
     = map (\<lambda>(j, txt). (deckId, j + 1, txt)) (zip [k..<k + length texts] texts)"
proof (induction texts arbitrary: k n)
  case Nil
  show ?case by simp
next
  case (Cons x texts)
  have "[k..<k + length (x # texts)] = k # [Suc k..<Suc k + length texts]"
    by (subst upt_rec) simp
  then show ?case
    using Cons.IH [of "Suc k" "Suc n"] by simp
qed

lemma extractPDFPages_try_throws:
  assumes "extractPDFPages_try pdfParse w = (Inl e, w1)"
  shows "session (Logger w) \<noteq> None \<longrightarrow> session (Logger w1) \<noteq> None"
  using assms
  by (auto simp: extractPDFPages_try_def io_defs findDeckToExtract_def remote_call_cases
        Logger_endSession_def console_write_def Logger_setDeckContext_def
        deck_update_def Logger_add_def downloadPDF_def extractPDFText_def createPageDocuments_def
        Timestamp_now_def Let_def automationLogs_add_def clear_session_def
        split: option.splits list.splits sum.splits if_splits prod.splits)

lemma no_new_error_refl [simp]: "no_new_error docs docs"
  by (simp add: no_new_error_def)

lemma no_new_error_change_doc [simp]:
  assumes "\<forall>d. status (f d) \<noteq> ERROR"
  shows "no_new_error docs (change_doc k f docs)"
  using assms by (auto simp: no_new_error_def change_doc_def split: if_splits)

lemma extractPDFPages_try_decks:
  assumes "extractPDFPages_try pdfParse w = (r, w1)"
  shows "no_new_error (decks w) (decks w1)"
  using assms
  by (auto simp: extractPDFPages_try_def io_defs findDeckToExtract_def remote_call_cases
        Logger_endSession_def console_write_def Logger_setDeckContext_def
        deck_update_def Logger_add_def downloadPDF_def extractPDFText_def createPageDocuments_def
        Timestamp_now_def Let_def automationLogs_add_def clear_session_def
        split: option.splits list.splits sum.splits if_splits prod.splits)

lemma extractPDFPages_catch_active:
  assumes "session (Logger w1) = Some s"
  shows "\<exists>w2. extractPDFPages_catch e w1 = (Inr (), w2) \<and> decks w2 = decks w1"
  using assms
  by (auto simp: extractPDFPages_catch_def io_defs Logger_error_def Let_def console_write_def
        Logger_endSession_def automationLogs_add_def remote_call_cases clear_session_def
        Logger_getDeckContext_def split: option.splits)

text \<open>
  In a run of \<open>extractPDFPages\<close> taken as a whole, with no other job using the shared
  logger in between, the failure branch does not write the status \<open>error\<close>: the run
  returns normally, and a deck that has the status \<open>error\<close> afterwards had it before.
  The \<open>catch\<close> clause calls \<open>Logger.endSession\<close>, which clears the deck context, before
  it reads the deck context.
\<close>

lemma extractPDFPages_no_error_status:
  assumes "extractPDFPages pdfParse w = (r, w')"
  shows "r = Inr () \<and> no_new_error (decks w) (decks w')"
proof -
  let ?w0 = "Logger_startSession \<lparr>ss_action = js ''extract_pdf'', ss_deckId = None\<rparr> w"
  have active: "session (Logger ?w0) \<noteq> None" and d0: "decks ?w0 = decks w"
    by (simp_all add: Logger_startSession_def console_write_def)
  obtain r1 w1 where t: "extractPDFPages_try pdfParse ?w0 = (r1, w1)"
    by (cases "extractPDFPages_try pdfParse ?w0")
  note d1 = extractPDFPages_try_decks [OF t, unfolded d0]
  show ?thesis
  proof (cases r1)
    case (Inr u)
    with t assms have "r = Inr ()" and "w' = w1"
      by (simp_all add: extractPDFPages_def io_defs)
    with d1 show ?thesis by simp
  next
    case (Inl e)
    with t have "session (Logger w1) \<noteq> None"
      using extractPDFPages_try_throws [of pdfParse ?w0 e w1] active by simp
    then obtain s where "session (Logger w1) = Some s"
      by auto
    from extractPDFPages_catch_active [OF this, of e]
    obtain w2 where c: "extractPDFPages_catch e w1 = (Inr (), w2)" and d2: "decks w2 = decks w1"
      by auto
    from t Inl c assms have "r = Inr ()" and "w' = w2"
      by (simp_all add: extractPDFPages_def io_defs)
    with d1 d2 show ?thesis by simp
  qed
qed

lemma example_uploaded_query:
  "uploaded_query example_world = [(DocId (js ''deck1''), example_deck)]"
  by (simp add: uploaded_query_def example_world_def example_deck_def fresh_world_def)

text \<open>
  C1. The claim: one run of the extractor leaves the deck it works on either
  \<open>analyzing\<close> or \<open>error\<close> with a non-empty error message, and never \<open>extracting\<close>.
  In the example store, whose only deck is \<open>uploaded\<close>, with a file that \<open>pdfParse\<close>
  rejects, the run returns normally and leaves the deck with the status \<open>extracting\<close>
  and without an error message.
\<close>

theorem extractPDFPages_invalid_pdf_stays_extracting:
  "fst (extractPDFPages (\<lambda>buf. Inl (ErrorObject (js ''Invalid PDF structure''))) example_world)
     = Inr ()
   \<and> decks (snd (extractPDFPages (\<lambda>buf. Inl (ErrorObject (js ''Invalid PDF structure'')))
                    example_world))
     = [(DocId (js ''deck1''), example_deck\<lparr>status := EXTRACTING\<rparr>)]
   \<and> status (example_deck\<lparr>status := EXTRACTING\<rparr>) = EXTRACTING
   \<and> errorMessage (example_deck\<lparr>status := EXTRACTING\<rparr>) = None"
  by (simp add: extractPDFPages_def extractPDFPages_try_def extractPDFPages_catch_def io_defs
      findDeckToExtract_def uploaded_query_def remote_call_def example_world_def fresh_world_def
      Logger_startSession_def console_write_def Logger_setDeckContext_def deck_update_def
      change_doc_def Logger_add_def downloadPDF_def extractPDFText_def Logger_error_def
      Logger_endSession_def final_session_def automationLogs_add_def clear_session_def
      Logger_getDeckContext_def Timestamp_now_def Let_def example_deck_def js_def)

lemma two_pages_split:
  "extractPDFText_pages \<lparr>pdf_text = js ''PageOneText'' @ js ''PageTwoText'', numpages = 2\<rparr>
     = [js ''PageOneText'', js ''PageTwoText'']"
proof -
  have "page_at (js ''PageOneText'' @ js ''PageTwoText'') 11 0 = js ''PageOneText''"
    by (simp add: page_at_def substring_def trim_def isWhiteSpace_def js_def Let_def)
  moreover have "page_at (js ''PageOneText'' @ js ''PageTwoText'') 11 (Suc 0) = js ''PageTwoText''"
    by (simp add: page_at_def substring_def trim_def isWhiteSpace_def js_def Let_def)
  moreover have "avgCharsPerPage (js ''PageOneText'' @ js ''PageTwoText'') 2 = 11"
    by (simp add: avgCharsPerPage_def js_def)
  moreover have "[0..<2] = [0, Suc 0]"
    by (simp add: upt_conv_Cons)
  ultimately show ?thesis
    by (simp add: extractPDFText_pages_map)
qed

text \<open>
  C6 as it is claimed takes the text \<open>"PageOneText" + "PageTwoText"\<close> to have 24 characters
  and page 1 to be its first 12 characters. The text has 22 characters, and the first
  page that the splitter returns is not the first 12 characters of it.
\<close>

theorem two_pages_not_twelve_characters:
  "length (js ''PageOneText'' @ js ''PageTwoText'') \<noteq> 24
   \<and> extractPDFText_pages \<lparr>pdf_text = js ''PageOneText'' @ js ''PageTwoText'', numpages = 2\<rparr> ! 0
       \<noteq> trim (take 12 (js ''PageOneText'' @ js ''PageTwoText''))"
  by (simp add: two_pages_split) (simp add: trim_def isWhiteSpace_def js_def)

text \<open>
  C6, as the code has it. The full text \<open>"PageOneText" + "PageTwoText"\<close> has 22 characters.
  For a store in which the query of the extractor finds a deck, whose file is in the
  bucket and yields this text with page count 2, a run in which no remote call fails
  returns normally and creates exactly two Page documents for that deck: number 1 with
  the first 11 characters of the text, trimmed, and number 2 with the remaining 11
  characters, trimmed, each with the number of white-space-delimited non-empty tokens of
  its text as word count; the deck gets the status \<open>analyzing\<close> and the page count 2.
  The word count of \<open>"alpha  beta   "\<close> is 2.
\<close>

theorem extractPDFPages_two_pages:
  assumes "faults w = []"
    and "uploaded_query w = (deckId, deck) # rest"
    and "distinct (map fst (decks w))"
    and "map_of (bucket w) (storagePath deck) = Some buf"
    and "pdfParse buf = Inr \<lparr>pdf_text = js ''PageOneText'' @ js ''PageTwoText'', numpages = 2\<rparr>"
  shows "length (js ''PageOneText'' @ js ''PageTwoText'') = 22
         \<and> (\<exists>w'. extractPDFPages pdfParse w = (Inr (), w')
                \<and> pages w' = pages w
                     @ [(deckId, AutoId (autoIds w),
                         \<lparr>pageNumber = 1,
                          pageText = trim (take 11 (js ''PageOneText'' @ js ''PageTwoText'')),
                          extractedAt = clock w,
                          wordCount = length (spec_words
                                        (trim (take 11 (js ''PageOneText'' @ js ''PageTwoText'')))),
                          pageStatus = EXTRACTED\<rparr>),
                        (deckId, AutoId (autoIds w + 1),
                         \<lparr>pageNumber = 2,
                          pageText = trim (drop 11 (js ''PageOneText'' @ js ''PageTwoText'')),
                          extractedAt = clock w,
                          wordCount = length (spec_words
                                        (trim (drop 11 (js ''PageOneText'' @ js ''PageTwoText'')))),
                          pageStatus = EXTRACTED\<rparr>)]
                \<and> map_of (decks w') deckId
                    = Some (deck\<lparr>status := ANALYZING, pageCount := 2,
                                  processedAt := Some (clock w)\<rparr>))
         \<and> wordCountOf (js ''alpha  beta   '') = 2"
proof (intro conjI)
  show "length (js ''PageOneText'' @ js ''PageTwoText'') = 22"
    by (simp add: js_def)
  show "wordCountOf (js ''alpha  beta   '') = 2"
    by (simp add: wordCountOf_def isWhiteSpace_def js_def)
  have t1: "trim (take 11 (js ''PageOneText'' @ js ''PageTwoText'')) = js ''PageOneText''"
    by (simp add: trim_def isWhiteSpace_def js_def)
  have t2: "trim (drop 11 (js ''PageOneText'' @ js ''PageTwoText'')) = js ''PageTwoText''"
    by (simp add: trim_def isWhiteSpace_def js_def)
  have deck: "map_of (decks w) deckId = Some deck"
    using uploaded_query_mem(1) [OF assms(2)] assms(3) by simp
  from extractPDFPages_success [where pdfParse = pdfParse and buf = buf, OF assms(1,2,4,5)]
  obtain w' where run: "extractPDFPages pdfParse w = (Inr (), w')"
    and ps: "pages w' = pages w @ batch_of deckId (clock w) 0 (autoIds w)
               (extractPDFText_pages
                  \<lparr>pdf_text = js ''PageOneText'' @ js ''PageTwoText'', numpages = 2\<rparr>)"
    and ds: "decks w' = change_doc deckId
               (\<lambda>d. d\<lparr>status := ANALYZING,
                      pageCount := length (extractPDFText_pages
                         \<lparr>pdf_text = js ''PageOneText'' @ js ''PageTwoText'', numpages = 2\<rparr>),
                      processedAt := Some (clock w)\<rparr>) (decks w)"
    by blast
  show "\<exists>w'. extractPDFPages pdfParse w = (Inr (), w')
          \<and> pages w' = pages w
               @ [(deckId, AutoId (autoIds w),
                   \<lparr>pageNumber = 1,
                    pageText = trim (take 11 (js ''PageOneText'' @ js ''PageTwoText'')),
                    extractedAt = clock w,
                    wordCount = length (spec_words
                                  (trim (take 11 (js ''PageOneText'' @ js ''PageTwoText'')))),
                    pageStatus = EXTRACTED\<rparr>),
                  (deckId, AutoId (autoIds w + 1),
                   \<lparr>pageNumber = 2,
                    pageText = trim (drop 11 (js ''PageOneText'' @ js ''PageTwoText'')),
                    extractedAt = clock w,
                    wordCount = length (spec_words
                                  (trim (drop 11 (js ''PageOneText'' @ js ''PageTwoText'')))),
                    pageStatus = EXTRACTED\<rparr>)]
          \<and> map_of (decks w') deckId
              = Some (deck\<lparr>status := ANALYZING, pageCount := 2, processedAt := Some (clock w)\<rparr>)"
    unfolding t1 t2
    by (rule exI [of _ w'])
       (simp add: run ps ds two_pages_split wordCountOf_words map_of_change_doc deck)
qed

theorem extractPDFPages_two_pages_witness:
  "faults example_world = []
   \<and> uploaded_query example_world = [(DocId (js ''deck1''), example_deck)]
   \<and> distinct (map fst (decks example_world))
   \<and> map_of (bucket example_world) (storagePath example_deck) = Some [37, 80, 68, 70]
   \<and> (\<exists>w'. extractPDFPages
                 (\<lambda>buf. Inr \<lparr>pdf_text = js ''PageOneText'' @ js ''PageTwoText'', numpages = 2\<rparr>)
                 example_world = (Inr (), w')
          \<and> map (\<lambda>(deckId, pageId, p). (deckId, pageNumber p, pageText p, wordCount p)) (pages w')
              = [(DocId (js ''deck1''), 1, js ''PageOneText'', 1),
                 (DocId (js ''deck1''), 2, js ''PageTwoText'', 1)]
          \<and> map_of (decks w') (DocId (js ''deck1''))
              = Some (example_deck\<lparr>status := ANALYZING, pageCount := 2, processedAt := Some 5\<rparr>))"
proof -
  have h1: "faults example_world = []"
    by (simp add: example_world_def fresh_world_def)
  have h2: "uploaded_query example_world = (DocId (js ''deck1''), example_deck) # []"
    by (rule example_uploaded_query)
  have h3: "distinct (map fst (decks example_world))"
    by (simp add: example_world_def fresh_world_def)
  have h4: "map_of (bucket example_world) (storagePath example_deck) = Some [37, 80, 68, 70]"
    by (simp add: example_world_def fresh_world_def example_deck_def)
  have h5: "(\<lambda>buf. Inr \<lparr>pdf_text = js ''PageOneText'' @ js ''PageTwoText'', numpages = 2\<rparr>)
              [37, 80, 68, 70 :: nat]
            = (Inr \<lparr>pdf_text = js ''PageOneText'' @ js ''PageTwoText'', numpages = 2\<rparr>
                 :: thrown + pdf_data)"
    by simp
  have t1: "trim (take 11 (js ''PageOneText'' @ js ''PageTwoText'')) = js ''PageOneText''"
    by (simp add: trim_def isWhiteSpace_def js_def)
  have t2: "trim (drop 11 (js ''PageOneText'' @ js ''PageTwoText'')) = js ''PageTwoText''"
    by (simp add: trim_def isWhiteSpace_def js_def)
  have c1: "length (spec_words (js ''PageOneText'')) = 1"
    by (simp add: isWhiteSpace_def js_def)
  have c2: "length (spec_words (js ''PageTwoText'')) = 1"
    by (simp add: isWhiteSpace_def js_def)
  have e: "pages example_world = []" "clock example_world = 5"
    by (simp_all add: example_world_def fresh_world_def)
  from extractPDFPages_two_pages
         [where pdfParse = "\<lambda>buf. Inr \<lparr>pdf_text = js ''PageOneText'' @ js ''PageTwoText'',
                                        numpages = 2\<rparr>",
          OF h1 h2 h3 h4 h5]
  show ?thesis
    unfolding t1 t2 c1 c2 using h1 h2 h3 h4 by (auto simp: e)
qed


section \<open>Properties of the critic job\<close>

lemma scan_frame [simp]:
  "faults w = [] \<Longrightarrow> then_io remote_call (\<lambda>w. (Inr (q w), w)) w = (Inr (q w), w)"
  by (simp add: io_defs remote_call_ok)

lemma problem_insights_empty:
  "problem_insights_query deckId (pageNumber page) w = []
     \<longleftrightarrow> spec_lacks_problem w \<lparr>item_deckId = deckId, item_pageId = pageId,
                              item_page = page, item_deck = deck\<rparr>"
proof -
  have "take 1 xs = [] \<longleftrightarrow> xs = []" for xs :: "(doc_id \<times> Insight) list"
    by (cases xs) simp_all
  then show ?thesis
    by (auto simp: problem_insights_query_def spec_lacks_problem_def filter_empty_conv)
qed

lemma scan_pages_find:
  assumes "faults w = []"
  shows "scan_pages deckId deck ps w
           = (Inr (find (spec_lacks_problem w)
                     (map (\<lambda>(pageId, page).
                             \<lparr>item_deckId = deckId, item_pageId = pageId,
                              item_page = page, item_deck = deck\<rparr>) ps)), w)"
proof (induction ps)
  case Nil
  show ?case by (simp add: io_defs)
next
  case (Cons p ps)
  obtain pageId page where p: "p = (pageId, page)"
    by (cases p)
  show ?case
    using assms Cons.IH
    by (simp add: p bind_io_def return_io_def problem_insights_empty [of deckId page w pageId deck])
qed

lemma find_append_case:
  "find P (xs @ ys) = (case find P xs of None \<Rightarrow> find P ys | Some x \<Rightarrow> Some x)"
  by (induction xs) auto

lemma scan_decks_find:
  assumes "faults w = []"
  shows "scan_decks ds w
           = (Inr (find (spec_lacks_problem w)
                     (concat (map (\<lambda>(t, deckId, deck).
                                     map (\<lambda>(pageId, page).
                                            \<lparr>item_deckId = deckId, item_pageId = pageId,
                                             item_page = page, item_deck = deck\<rparr>)
                                         (pages_query deckId w)) ds))), w)"
proof (induction ds)
  case Nil
  show ?case by (simp add: io_defs)
next
  case (Cons d ds)
  obtain t deckId deck where d: "d = (t, deckId, deck)"
    by (cases d)
  show ?case
    using assms Cons.IH
    by (simp add: d bind_io_def return_io_def scan_pages_find find_append_case
        split: option.splits)
qed

lemma findPageToCritique_find:
  assumes "faults w = []"
  shows "findPageToCritique w = (Inr (find (spec_lacks_problem w) (spec_scan_order w)), w)"
  using assms
  by (simp add: findPageToCritique_def bind_io_def return_io_def scan_decks_find spec_scan_order_def)

lemma set_map_filter_iff:
  "y \<in> set (List.map_filter f xs) \<longleftrightarrow> (\<exists>x \<in> set xs. f x = Some y)"
  by (induction xs) (auto split: option.splits)

lemma analyzing_decks_mem:
  assumes "(t, i, d) \<in> set (analyzing_decks w)"
  shows "(i, d) \<in> set (decks w) \<and> status d = ANALYZING \<and> processedAt d = Some t"
  using assms
  by (auto simp: analyzing_decks_def set_map_filter_iff split: option.splits if_splits)

text \<open>
  C3. In a run in which no remote call fails, the work finder returns the first page, in
  scan order, that has no insight of type \<open>problem\<close> for its page number, and it returns
  \<open>null\<close> exactly when the scan order has no such page. The scan order goes through the
  decks of the first query in their order and through the pages of each deck in
  page-number order; the first query holds at most ten decks: the first ten of the
  decks in \<open>analyzing\<close> status that have a processing timestamp, ordered by that
  timestamp ascending.
\<close>

theorem findPageToCritique_first_page:
  assumes "faults w = []"
  shows "findPageToCritique w = (Inr (find (spec_lacks_problem w) (spec_scan_order w)), w)
         \<and> (find (spec_lacks_problem w) (spec_scan_order w) = None
              \<longleftrightarrow> (\<forall>item \<in> set (spec_scan_order w). \<not> spec_lacks_problem w item))
         \<and> length (analyzing_query w) \<le> 10
         \<and> analyzing_query w = take 10 (sort_key fst (analyzing_decks w))
         \<and> sorted (map fst (sort_key fst (analyzing_decks w)))
         \<and> mset (sort_key fst (analyzing_decks w)) = mset (analyzing_decks w)
         \<and> (\<forall>(t, i, d) \<in> set (analyzing_decks w).
               (i, d) \<in> set (decks w) \<and> status d = ANALYZING \<and> processedAt d = Some t)
         \<and> (\<forall>(i, d) \<in> set (decks w).
               status d = ANALYZING \<longrightarrow>
               (\<forall>t. processedAt d = Some t \<longrightarrow> (t, i, d) \<in> set (analyzing_decks w)))
         \<and> (\<forall>deckId. sorted (map (\<lambda>(pageId, p). pageNumber p) (pages_query deckId w))
                     \<and> mset (pages_query deckId w)
                       = mset (map snd (filter (\<lambda>(parent, pageId, p). parent = deckId) (pages w))))"
proof (intro conjI)
  show "findPageToCritique w = (Inr (find (spec_lacks_problem w) (spec_scan_order w)), w)"
    by (rule findPageToCritique_find [OF assms])
  show "find (spec_lacks_problem w) (spec_scan_order w) = None
          \<longleftrightarrow> (\<forall>item \<in> set (spec_scan_order w). \<not> spec_lacks_problem w item)"
    by (auto simp: find_None_iff)
  show "length (analyzing_query w) \<le> 10"
    by (simp add: analyzing_query_def)
  show "analyzing_query w = take 10 (sort_key fst (analyzing_decks w))"
    by (simp add: analyzing_query_def)
  show "sorted (map fst (sort_key fst (analyzing_decks w)))"
    by simp
  show "mset (sort_key fst (analyzing_decks w)) = mset (analyzing_decks w)"
    by simp
  show "\<forall>(t, i, d) \<in> set (analyzing_decks w).
          (i, d) \<in> set (decks w) \<and> status d = ANALYZING \<and> processedAt d = Some t"
    using analyzing_decks_mem by blast
  show "\<forall>(i, d) \<in> set (decks w).
          status d = ANALYZING \<longrightarrow>
          (\<forall>t. processedAt d = Some t \<longrightarrow> (t, i, d) \<in> set (analyzing_decks w))"
    by (force simp: analyzing_decks_def set_map_filter_iff)
  show "\<forall>deckId. sorted (map (\<lambda>(pageId, p). pageNumber p) (pages_query deckId w))
                 \<and> mset (pages_query deckId w)
                   = mset (map snd (filter (\<lambda>(parent, pageId, p). parent = deckId) (pages w)))"
    by (simp add: pages_query_def)
qed

theorem findPageToCritique_first_page_witness:
  "faults critic_world = []
   \<and> findPageToCritique critic_world
       = (Inr (Some \<lparr>item_deckId = DocId (js ''deckA''), item_pageId = AutoId 0,
                       item_page = example_page 2,
                       item_deck = example_deck\<lparr>status := ANALYZING, pageCount := 2,
                                                 processedAt := Some 20\<rparr>\<rparr>),
          critic_world)
   \<and> map (\<lambda>(t, i, d). i) (analyzing_query critic_world)
       = [DocId (js ''deckB''), DocId (js ''deckA'')]"
proof -
  have f: "faults critic_world = []"
    by (simp add: critic_world_def fresh_world_def)
  have q: "analyzing_query critic_world
             = [(10, DocId (js ''deckB''),
                 example_deck\<lparr>status := ANALYZING, pageCount := 1, processedAt := Some 10\<rparr>),
                (20, DocId (js ''deckA''),
                 example_deck\<lparr>status := ANALYZING, pageCount := 2, processedAt := Some 20\<rparr>)]"
    by (simp add: analyzing_query_def analyzing_decks_def critic_world_def fresh_world_def
        example_deck_def js_def)
  have pa: "pages_query (DocId (js ''deckA'')) critic_world
              = [(AutoId 1, example_page 1), (AutoId 0, example_page 2)]"
    by (simp add: pages_query_def critic_world_def fresh_world_def example_page_def js_def)
  have pb: "pages_query (DocId (js ''deckB'')) critic_world = [(AutoId 2, example_page 1)]"
    by (simp add: pages_query_def critic_world_def fresh_world_def example_page_def js_def)
  have r: "find (spec_lacks_problem critic_world) (spec_scan_order critic_world)
             = Some \<lparr>item_deckId = DocId (js ''deckA''), item_pageId = AutoId 0,
                      item_page = example_page 2,
                      item_deck = example_deck\<lparr>status := ANALYZING, pageCount := 2,
                                                processedAt := Some 20\<rparr>\<rparr>"
    by (simp add: spec_scan_order_def q pa pb spec_lacks_problem_def)
       (simp add: critic_world_def fresh_world_def example_insight_def example_page_def js_def)
  from findPageToCritique_first_page [OF f, THEN conjunct1] show ?thesis
    by (simp add: f r q)
qed

lemma checkIfDeckComplete_run:
  assumes "faults w = []" and "deckId \<in> fst ` set (decks w)"
  shows "checkIfDeckComplete deckId n w
           = (if length (filter (\<lambda>(parent, insightId, ins). parent = deckId) (insights w)) \<ge> n * 1
              then (Inr (),
                    Logger_add (js ''Deck analysis complete! '' @ [55356, 57225])
                      (Some [(js ''totalInsights'',
                              DataNumber (length (filter (\<lambda>(parent, insightId, ins). parent = deckId)
                                                    (insights w))))])
                      (w\<lparr>decks := change_doc deckId (\<lambda>d. d\<lparr>status := COMPLETE\<rparr>) (decks w)\<rparr>))
              else (Inr (), w))"
  using assms
  by (simp add: checkIfDeckComplete_def io_defs remote_call_ok
      insights_query_def Let_def deck_update_ok [unfolded io_defs])

text \<open>
  C4. The completion check counts all insights of the deck, of any type, and changes
  the status of the deck to \<open>complete\<close> if and only if that count is at least
  \<open>pageCount * 1\<close>: when the count is smaller, nothing is written at all. This is
  stated for a run in which no remote call fails and for a deck that exists.
\<close>

theorem checkIfDeckComplete_iff:
  assumes "faults w = []" and "map_of (decks w) deckId = Some deck"
  shows "\<exists>w'. checkIfDeckComplete deckId n w = (Inr (), w')
          \<and> (length (filter (\<lambda>(parent, insightId, ins). parent = deckId) (insights w)) \<ge> n * 1
                \<longrightarrow> map_of (decks w') deckId = Some (deck\<lparr>status := COMPLETE\<rparr>)
                    \<and> decks w' = change_doc deckId (\<lambda>d. d\<lparr>status := COMPLETE\<rparr>) (decks w))
          \<and> (length (filter (\<lambda>(parent, insightId, ins). parent = deckId) (insights w)) < n * 1
                \<longrightarrow> w' = w)"
proof -
  have mem: "deckId \<in> fst ` set (decks w)"
    using assms(2) by (metis domI dom_map_of_conv_image_fst)
  show ?thesis
    by (simp add: checkIfDeckComplete_run [OF assms(1) mem] Logger_add_def console_write_def
        map_of_change_doc assms(2))
qed

theorem checkIfDeckComplete_iff_witness:
  "faults three_insights_world = []
   \<and> map_of (decks three_insights_world) (DocId (js ''deck3''))
       = Some (example_deck\<lparr>status := ANALYZING, pageCount := 3, processedAt := Some 20\<rparr>)
   \<and> map (\<lambda>(parent, insightId, ins). (parent, insightType ins)) (insights three_insights_world)
       = [(DocId (js ''deck3''), PROBLEM), (DocId (js ''deck3''), PROBLEM),
          (DocId (js ''deck3''), PROBLEM)]
   \<and> (\<exists>w'. checkIfDeckComplete (DocId (js ''deck3'')) 3 three_insights_world = (Inr (), w')
          \<and> map_of (decks w') (DocId (js ''deck3''))
              = Some (example_deck\<lparr>status := COMPLETE, pageCount := 3, processedAt := Some 20\<rparr>))
   \<and> checkIfDeckComplete (DocId (js ''deck3'')) 4 three_insights_world
       = (Inr (), three_insights_world)"
proof -
  have f: "faults three_insights_world = []"
    by (simp add: three_insights_world_def fresh_world_def)
  have d: "map_of (decks three_insights_world) (DocId (js ''deck3''))
             = Some (example_deck\<lparr>status := ANALYZING, pageCount := 3, processedAt := Some 20\<rparr>)"
    by (simp add: three_insights_world_def fresh_world_def)
  have i: "map (\<lambda>(parent, insightId, ins). (parent, insightType ins)) (insights three_insights_world)
             = [(DocId (js ''deck3''), PROBLEM), (DocId (js ''deck3''), PROBLEM),
                (DocId (js ''deck3''), PROBLEM)]"
    by (simp add: three_insights_world_def fresh_world_def example_insight_def)
  have c: "length (filter (\<lambda>(parent, insightId, ins). parent = DocId (js ''deck3''))
                     (insights three_insights_world)) = 3"
    by (simp add: three_insights_world_def fresh_world_def)
  from checkIfDeckComplete_iff [OF f d, of 3] checkIfDeckComplete_iff [OF f d, of 4]
  show ?thesis
    by (auto simp: f d i c)
qed


section \<open>Properties of the overlap guard\<close>

lemma guard_inv_init: "guard_inv scheduler_init"
  by (simp add: guard_inv_def scheduler_init_def)

lemma guard_inv_at:
  assumes "guard_inv s"
  shows "pending s n \<le> 1" and "pending s n = 1 \<longleftrightarrow> runningJobs s n = Some True"
  using assms by (simp_all add: guard_inv_def)

lemma guard_inv_fire:
  assumes "guard_inv s" and "fire e s = Some s'"
  shows "guard_inv s'"
  unfolding guard_inv_def
proof (intro allI)
  fix m
  show "pending s' m \<le> 1 \<and> (pending s' m = 1 \<longleftrightarrow> runningJobs s' m = Some True)"
  proof (cases e)
    case (Call n)
    then have s': "s' = wrapper_call n s"
      using assms(2) by simp
    show ?thesis
      using guard_inv_at [OF assms(1), of m] guard_inv_at [OF assms(1), of n]
      by (cases "m = n") (auto simp: s' wrapper_call_def)
  next
    case (Settle n outcome)
    then have p: "0 < pending s n" and s': "s' = wrapper_settle n outcome s"
      using assms(2) by (simp_all split: if_splits)
    show ?thesis
      using guard_inv_at [OF assms(1), of m] guard_inv_at [OF assms(1), of n] p
      by (cases "m = n"; cases outcome) (auto simp: s' wrapper_settle_def Let_def)
  qed
qed

lemma guard_inv_run:
  assumes "guard_inv s" and "run_events es s = Some s'"
  shows "guard_inv s'"
  using assms
proof (induction es arbitrary: s)
  case Nil
  then show ?case by simp
next
  case (Cons e es)
  then show ?case
    by (auto split: option.splits dest: guard_inv_fire)
qed

text \<open>
  C2. In every state that the guard can reach, each job name has at most one run of
  its body in flight. A call of the wrapper while the previous run is pending does not
  call the job function (it writes the skip line and changes nothing else for the job);
  when the pending run settles, by return or by throw, the busy flag is cleared, and
  the next call of the wrapper calls the job function again.
\<close>

theorem preventOverlap_at_most_one:
  assumes "run_events es scheduler_init = Some s"
  shows "(\<forall>n. pending s n \<le> 1)
         \<and> (\<forall>n. pending s n = 1 \<longrightarrow>
                invocations (wrapper_call n s) n = invocations s n
                \<and> pending (wrapper_call n s) n = 1
                \<and> sched_console (wrapper_call n s) = sched_console s @ [SkippingJob n])
         \<and> (\<forall>n outcome. pending s n = 1 \<longrightarrow>
                runningJobs (wrapper_settle n outcome s) n = Some False
                \<and> pending (wrapper_settle n outcome s) n = 0
                \<and> invocations (wrapper_call n (wrapper_settle n outcome s)) n
                    = invocations s n + 1
                \<and> pending (wrapper_call n (wrapper_settle n outcome s)) n = 1)
         \<and> (\<forall>n. pending s n = 0 \<longrightarrow>
                invocations (wrapper_call n s) n = invocations s n + 1
                \<and> pending (wrapper_call n s) n = 1)"
proof -
  have inv: "guard_inv s"
    using guard_inv_run [OF guard_inv_init assms] .
  show ?thesis
  proof (intro conjI allI impI)
    fix n
    show "pending s n \<le> 1"
      by (rule guard_inv_at(1) [OF inv])
  next
    fix n
    assume p: "pending s n = 1"
    then have "runningJobs s n = Some True"
      using guard_inv_at(2) [OF inv, of n] by simp
    then show "invocations (wrapper_call n s) n = invocations s n"
      and "pending (wrapper_call n s) n = 1"
      and "sched_console (wrapper_call n s) = sched_console s @ [SkippingJob n]"
      using p by (simp_all add: wrapper_call_def)
  next
    fix n outcome
    assume p: "pending s n = 1"
    show "runningJobs (wrapper_settle n outcome s) n = Some False"
      and "pending (wrapper_settle n outcome s) n = 0"
      and "invocations (wrapper_call n (wrapper_settle n outcome s)) n = invocations s n + 1"
      and "pending (wrapper_call n (wrapper_settle n outcome s)) n = 1"
      using p by (cases outcome; simp add: wrapper_call_def wrapper_settle_def Let_def)+
  next
    fix n
    assume p: "pending s n = 0"
    then have "runningJobs s n \<noteq> Some True"
      using guard_inv_at(2) [OF inv, of n] by simp
    then show "invocations (wrapper_call n s) n = invocations s n + 1"
      and "pending (wrapper_call n s) n = 1"
      using p by (simp_all add: wrapper_call_def)
  qed
qed

theorem preventOverlap_at_most_one_witness:
  "run_events [Call (js ''Extract PDF Pages'')] scheduler_init
     = Some (wrapper_call (js ''Extract PDF Pages'') scheduler_init)
   \<and> pending (wrapper_call (js ''Extract PDF Pages'') scheduler_init) (js ''Extract PDF Pages'') = 1
   \<and> invocations (wrapper_call (js ''Extract PDF Pages'') scheduler_init)
         (js ''Extract PDF Pages'') = 1
   \<and> invocations (wrapper_call (js ''Extract PDF Pages'')
                      (wrapper_call (js ''Extract PDF Pages'') scheduler_init))
         (js ''Extract PDF Pages'') = 1
   \<and> invocations (wrapper_call (js ''Extract PDF Pages'')
                      (wrapper_settle (js ''Extract PDF Pages'')
                         (Some (ErrorObject (js ''boom'')))
                         (wrapper_call (js ''Extract PDF Pages'') scheduler_init)))
         (js ''Extract PDF Pages'') = 2"
proof -
  let ?n = "js ''Extract PDF Pages''"
  let ?s = "wrapper_call ?n scheduler_init"
  have r: "run_events [Call ?n] scheduler_init = Some ?s"
    by simp
  have p: "pending ?s ?n = 1" and i: "invocations ?s ?n = 1"
    by (simp_all add: wrapper_call_def scheduler_init_def)
  note t = preventOverlap_at_most_one [OF r]
  show ?thesis
    using r p i t [THEN conjunct2, THEN conjunct1, rule_format, OF p]
      t [THEN conjunct2, THEN conjunct2, THEN conjunct1, rule_format, OF p,
         of "Some (ErrorObject (js ''boom''))"]
    by simp
qed

end
